theory Spec2Isabelle
  imports Main "HOL-Library.Word" "HOL-Library.AList"
begin

unbundle bit_operations_syntax

section \<open>srddl/core/offset.py: byte and bit positions\<close>

text \<open>
  \<open>_Offset\<close> has the two concrete subclasses \<open>Offset\<close> and \<open>Size\<close>; they share the
  arithmetic and differ in \<open>rounded\<close> only. Python integers are unbounded, so both
  components are \<open>int\<close>.
\<close>

datatype offset_class = Offset | Size

record pyoffset =
  klass :: offset_class
  obyte :: int
  obit :: int

text \<open>
  The first constructor argument is a BoundValue (its decoded value is taken), another
  \<open>_Offset\<close> (both of its components are taken and the \<open>bit\<close> argument is ignored) or a
  plain integer.
\<close>

datatype init_arg = FromBoundValue int | FromOffset pyoffset | FromInt int

definition Offset_init :: "offset_class \<Rightarrow> init_arg \<Rightarrow> int \<Rightarrow> pyoffset" where
  "Offset_init c a b =
     (let (byte0, bit0) =
        (case a of
           FromBoundValue v \<Rightarrow> (v, b)
         | FromOffset x \<Rightarrow> (obyte x, obit x)
         | FromInt n \<Rightarrow> (n, b))
      in \<lparr>klass = c, obyte = byte0 + bit0 div 8, obit = bit0 mod 8\<rparr>)"

text \<open>The right operand of \<open>+\<close>, \<open>-\<close>, \<open>==\<close> and \<open><\<close>: an \<open>_Offset\<close> or anything else.\<close>

datatype operand = OpOffset pyoffset | OpInt int

definition offset_eq :: "pyoffset \<Rightarrow> operand \<Rightarrow> bool" where
  "offset_eq self other =
     (case other of
        OpOffset x \<Rightarrow> (obyte self, obit self) = (obyte x, obit x)
      | OpInt n \<Rightarrow> (obyte self, obit self) = (n, 0))"

definition offset_lt :: "pyoffset \<Rightarrow> operand \<Rightarrow> bool" where
  "offset_lt self other =
     (case other of
        OpOffset x \<Rightarrow> obyte self < obyte x \<or> (obyte self = obyte x \<and> obit self < obit x)
      | OpInt n \<Rightarrow> obyte self < n \<or> (obyte self = n \<and> obit self < 0))"

definition offset_add :: "pyoffset \<Rightarrow> operand \<Rightarrow> pyoffset" where
  "offset_add self other =
     (case other of
        OpOffset x \<Rightarrow>
          (let bit1 = obit self + obit x;
               byte1 = obyte self + obyte x + drop_bit 3 bit1;
               bit2 = bit1 AND 7
           in Offset_init (klass self) (FromInt byte1) bit2)
      | OpInt n \<Rightarrow> Offset_init (klass self) (FromInt (obyte self + n)) (obit self))"

definition offset_sub :: "pyoffset \<Rightarrow> operand \<Rightarrow> pyoffset" where
  "offset_sub self other =
     (case other of
        OpOffset x \<Rightarrow>
          (let bit1 = obit self - obit x;
               byte1 = obyte self - obyte x
           in if bit1 < 0
              then Offset_init (klass self) (FromInt (byte1 - 1)) (8 + bit1)
              else Offset_init (klass self) (FromInt byte1) bit1)
      | OpInt n \<Rightarrow> Offset_init (klass self) (FromInt (obyte self - n)) (obit self))"

definition aligned :: "pyoffset \<Rightarrow> bool" where
  "aligned self = (obit self = 0)"

definition rounded :: "pyoffset \<Rightarrow> int" where
  "rounded self =
     (case klass self of
        Offset \<Rightarrow> obyte self
      | Size \<Rightarrow> obyte self + (if obit self \<noteq> 0 then 1 else 0))"

section \<open>Exceptions and Python values\<close>

text \<open>
  The exceptions the modelled code can raise. \<open>PyException\<close> is the builtin
  \<open>Exception\<close> with its message; \<open>StructError\<close> is \<open>struct.error\<close>. The classes of
  \<open>srddl.exceptions\<close> keep the names the sources use, \<open>BifFieldSizeError\<close> included.
  \<open>ReadOnlyError\<close> is the class named by the specification's error list; no function
  of the sources raises it.
\<close>

datatype error =
    TypeError
  | KeyError
  | IndexError
  | ValueError
  | AttributeError
  | StructError
  | PyException string
  | NoFieldDataError
  | FieldNotReadyError
  | NotABoundValueError
  | FieldAlignmentError
  | BifFieldSizeError pyoffset
  | ReadOnlyError

type_synonym byte = "8 word"

text \<open>The values handed to and returned by \<open>struct\<close>: an integer, a bytes object or a str.\<close>

datatype pyval = VInt int | VBytes "byte list" | VStr string

text \<open>
  An argument in the position of a buffer offset: an integer, or a bound method object
  (what \<open>offset.rounded\<close> without the call parentheses evaluates to).
\<close>

datatype pyarg = PyInt int | PyMethod

section \<open>The struct module, as far as the fields use it\<close>

text \<open>
  A format string of the fields is a byte-order character followed by one of
  \<open>bhiq\<close>/\<open>BHIQ\<close> (standard sizes 1, 2, 4, 8; lower case is signed), or \<open>Ns\<close> for \<open>N\<close>
  raw bytes.
\<close>

datatype endianess = LITTLE | BIG | NETWORK

datatype fmt = FInt endianess nat bool | FBytes int

fun int_to_le :: "nat \<Rightarrow> int \<Rightarrow> byte list" where
  "int_to_le 0 v = []"
| "int_to_le (Suc n) v = word_of_int v # int_to_le n (v div 256)"

fun le_to_int :: "byte list \<Rightarrow> int" where
  "le_to_int [] = 0"
| "le_to_int (b # bs) = uint b + 256 * le_to_int bs"

definition in_range :: "nat \<Rightarrow> bool \<Rightarrow> int \<Rightarrow> bool" where
  "in_range n sg v =
     (if sg then - (2 ^ (8 * n - 1)) \<le> v \<and> v < 2 ^ (8 * n - 1)
      else 0 \<le> v \<and> v < 2 ^ (8 * n))"

definition int_to_bytes :: "endianess \<Rightarrow> nat \<Rightarrow> int \<Rightarrow> byte list" where
  "int_to_bytes e n v = (if e = LITTLE then int_to_le n v else rev (int_to_le n v))"

definition bytes_to_int :: "endianess \<Rightarrow> nat \<Rightarrow> bool \<Rightarrow> byte list \<Rightarrow> int" where
  "bytes_to_int e n sg bs =
     (let u = le_to_int (if e = LITTLE then bs else rev bs)
      in if sg \<and> 2 ^ (8 * n - 1) \<le> u then u - 2 ^ (8 * n) else u)"

definition calcsize :: "fmt \<Rightarrow> error + nat" where
  "calcsize f =
     (case f of
        FInt e n sg \<Rightarrow> Inr n
      | FBytes k \<Rightarrow> if k < 0 then Inl StructError else Inr (nat k))"

text \<open>
  A buffer object: its bytes, and whether it supports item assignment (a \<open>bytearray\<close> or
  a writable map does, \<open>bytes\<close> or a map opened with \<open>PROT_READ\<close> does not).
\<close>

record pybuffer =
  content :: "byte list"
  assignable :: bool

text \<open>
  Where an access of \<open>n\<close> bytes at \<open>offset\<close> starts: a negative offset counts from the
  end of the buffer, and the span must lie inside the buffer.
\<close>

definition locate :: "pybuffer \<Rightarrow> pyarg \<Rightarrow> nat \<Rightarrow> error + nat" where
  "locate b a n =
     (case a of
        PyMethod \<Rightarrow> Inl TypeError
      | PyInt i \<Rightarrow>
          (let len = int (length (content b));
               j = (if i < 0 then i + len else i)
           in if j < 0 \<or> len - j < int n then Inl StructError else Inr (nat j)))"

definition struct_unpack_from :: "fmt \<Rightarrow> pybuffer \<Rightarrow> pyarg \<Rightarrow> error + pyval" where
  "struct_unpack_from f b a =
     (case calcsize f of
        Inl e \<Rightarrow> Inl e
      | Inr n \<Rightarrow>
          (case locate b a n of
             Inl e \<Rightarrow> Inl e
           | Inr j \<Rightarrow>
               (let bs = take n (drop j (content b))
                in case f of
                     FInt e m sg \<Rightarrow> Inr (VInt (bytes_to_int e m sg bs))
                   | FBytes k \<Rightarrow> Inr (VBytes bs))))"

text \<open>
  The bytes a single value packs to: an integer must be in the range of its code, the
  \<open>s\<close> code takes a bytes object only and truncates it or pads it with null bytes.
\<close>

definition pack_value :: "fmt \<Rightarrow> pyval \<Rightarrow> error + byte list" where
  "pack_value f v =
     (case f of
        FInt e n sg \<Rightarrow>
          (case v of
             VInt i \<Rightarrow> if in_range n sg i then Inr (int_to_bytes e n i) else Inl StructError
           | VBytes bs \<Rightarrow> Inl StructError
           | VStr s \<Rightarrow> Inl StructError)
      | FBytes k \<Rightarrow>
          (case v of
             VInt i \<Rightarrow> Inl StructError
           | VBytes bs \<Rightarrow>
               if k < 0 then Inl StructError
               else Inr (take (nat k) bs @ replicate (nat k - length bs) 0)
           | VStr s \<Rightarrow> Inl StructError))"

definition struct_pack_into :: "fmt \<Rightarrow> pybuffer \<Rightarrow> pyarg \<Rightarrow> pyval \<Rightarrow> error + pybuffer" where
  "struct_pack_into f b a v =
     (if \<not> assignable b then Inl TypeError
      else case calcsize f of
        Inl e \<Rightarrow> Inl e
      | Inr n \<Rightarrow>
          (case locate b a n of
             Inl e \<Rightarrow> Inl e
           | Inr j \<Rightarrow>
               (case pack_value f v of
                  Inl e \<Rightarrow> Inl e
                | Inr bs \<Rightarrow>
                    Inr (b\<lparr>content := take j (content b) @ bs @ drop (j + n) (content b)\<rparr>))))"

section \<open>srddl/data.py: the Data wrapper of a buffer\<close>

record Data =
  buf :: pybuffer
  ro :: bool

text \<open>
  The probe of the constructor, \<open>self.buf[0] = self.buf[0]\<close>: reading the first byte of
  an empty buffer raises, and so does assigning to a buffer without item assignment.
\<close>

definition probe :: "pybuffer \<Rightarrow> error + pybuffer" where
  "probe b =
     (case content b of
        [] \<Rightarrow> Inl IndexError
      | x # xs \<Rightarrow>
          if assignable b then Inr (b\<lparr>content := (content b)[0 := x]\<rparr>) else Inl TypeError)"

definition Data_init :: "pybuffer \<Rightarrow> bool \<Rightarrow> Data" where
  "Data_init b r =
     (case probe b of
        Inl e \<Rightarrow> \<lparr>buf = b, ro = True\<rparr>
      | Inr b' \<Rightarrow> \<lparr>buf = b', ro = r\<rparr>)"

definition unpack_from :: "Data \<Rightarrow> fmt \<Rightarrow> pyarg \<Rightarrow> error + pyval" where
  "unpack_from d f a = struct_unpack_from f (buf d) a"

text \<open>
  A call that writes returns the exception it raised, if any, together with the Data
  object as the call leaves it.
\<close>

definition pack_into :: "Data \<Rightarrow> fmt \<Rightarrow> pyarg \<Rightarrow> pyval \<Rightarrow> error option \<times> Data" where
  "pack_into d f a v =
     (if ro d then (Some (PyException ''fu''), d)
      else case struct_pack_into f (buf d) a v of
        Inl e \<Rightarrow> (Some e, d)
      | Inr b \<Rightarrow> (None, d\<lparr>buf := b\<rparr>))"

section \<open>srddl/core/fields.py: values, per-instance data, bound values\<close>

text \<open>
  A \<open>Value\<close> documents one possible raw value of a field. The integer-typed fields
  compare its \<open>value\<close> property with the integer they unpack.
\<close>

record Value =
  v_value :: int
  v_name :: string
  v_description :: string

text \<open>What a field's \<open>decode\<close> returns: a \<open>Value\<close> of its table, or the unpacked value.\<close>

datatype decoded = DValue Value | DRaw pyval

datatype FieldInitStatus = KO | INIT | OK

text \<open>
  A bound value as \<open>initialize\<close> registers it: the owning instance and the field are passed
  beside it where they are needed, so it is represented by its offset.
\<close>

record BoundValue =
  bv_offset :: pyoffset

text \<open>What a getter may hand back: None, a bound value, a structure, or anything else.\<close>

datatype pyobject = ObjNone | ObjBoundValue BoundValue | ObjStruct | ObjOther

text \<open>
  \<open>instance._srddl.fields_data\<close>, restricted to the keys of one field: the key
  \<open>data-<id>_<name>\<close> is represented by its \<open>name\<close>.
\<close>

datatype field_datum = DStatus FieldInitStatus | DObject pyobject

type_synonym fields_data = "string \<rightharpoonup> field_datum"

definition get_data :: "fields_data \<Rightarrow> string \<Rightarrow> error + field_datum" where
  "get_data fd name =
     (case fd name of None \<Rightarrow> Inl NoFieldDataError | Some x \<Rightarrow> Inr x)"

definition set_data :: "fields_data \<Rightarrow> string \<Rightarrow> field_datum \<Rightarrow> fields_data" where
  "set_data fd name x = fd(name \<mapsto> x)"

text \<open>\<open>AbstractField.__get__\<close> as the class body writes it.\<close>

definition AbstractField_get :: "fields_data \<Rightarrow> error + field_datum" where
  "AbstractField_get fd = get_data fd ''boundvalue''"

text \<open>
  The wrapper \<open>_MetaAbstractField.__new__\<close> puts around \<open>initialize\<close>. It reads the
  status, taking a missing entry for \<open>KO\<close>, and sets it; it does not call the function
  it wraps. The metaclass is defined in \<open>srddl/core/fields.py\<close>; no class of the
  sources names it, so its wrappers are in force only for a class that is declared with
  it.
\<close>

definition initialize_wrapper :: "fields_data \<Rightarrow> fields_data" where
  "initialize_wrapper fd =
     (let status = (case get_data fd ''status'' of Inl e \<Rightarrow> DStatus KO | Inr s \<Rightarrow> s);
          fd1 = set_data fd ''status'' (DStatus INIT)
      in if status \<noteq> DStatus INIT then set_data fd1 ''status'' (DStatus OK) else fd1)"

text \<open>
  The wrapper around \<open>__get__\<close>, as a first call runs it (the wrapper is memoised with
  \<open>functools.lru_cache\<close>, which stores results and no exceptions).
\<close>

definition get_wrapper :: "fields_data \<Rightarrow> error + field_datum" where
  "get_wrapper fd =
     (case get_data fd ''status'' of
        Inl e \<Rightarrow> Inl e
      | Inr st \<Rightarrow>
          if st \<noteq> DStatus OK then Inl FieldNotReadyError
          else (case AbstractField_get fd of
                  Inl e \<Rightarrow> Inl e
                | Inr res \<Rightarrow>
                    (case res of
                       DObject ObjNone \<Rightarrow> Inr res
                     | DObject (ObjBoundValue bv) \<Rightarrow> Inr res
                     | DObject ObjStruct \<Rightarrow> Inr res
                     | DObject ObjOther \<Rightarrow> Inl NotABoundValueError
                     | DStatus x \<Rightarrow> Inl NotABoundValueError)))"

text \<open>
  \<open>BoundValue._size\<close>: \<open>Size(byte=n)\<close>, with \<open>n\<close> what \<open>reference_value\<close> resolves the
  field's \<open>_size\<close> to.
\<close>

definition BoundValue_size :: "int \<Rightarrow> pyoffset" where
  "BoundValue_size n = Offset_init Size (FromInt n) 0"

text \<open>
  \<open>BoundValue._value\<close>, given what the field's \<open>decode\<close> returned or raised: a \<open>Value\<close>
  is replaced by its \<open>value\<close> property.
\<close>

definition BoundValue_value :: "error + decoded \<Rightarrow> error + pyval" where
  "BoundValue_value r =
     (case r of
        Inl e \<Rightarrow> Inl e
      | Inr res \<Rightarrow>
          (case res of
             DValue it \<Rightarrow> Inr (VInt (v_value it))
           | DRaw v \<Rightarrow> Inr v))"

section \<open>srddl/fields/core.py: the primitive fields\<close>

subsection \<open>IntField\<close>

text \<open>
  The configuration of an \<open>IntField\<close>: its size in bytes, signedness, byte order and
  the dictionary \<open>_values\<close>, kept in insertion order. The display base plays no part
  in decoding or encoding and is left out.
\<close>

record IntField =
  f_size :: int
  f_signed :: bool
  f_endianess :: endianess
  f_values :: "(int \<times> Value) list"

text \<open>\<open>IntField.Size.values()\<close>: BYTE, INT8, INT16, INT32, INT64.\<close>

definition Size_values :: "int list" where
  "Size_values = [1, 1, 2, 4, 8]"

text \<open>
  The loop \<open>for it in values: self._values[it['value']] = it\<close>: a later entry with the
  same raw value replaces the earlier one in its place.
\<close>

definition build_values :: "Value list \<Rightarrow> (int \<times> Value) list" where
  "build_values vs = fold (\<lambda>it m. AList.update (v_value it) it m) vs []"

definition IntField_init :: "int \<Rightarrow> bool \<Rightarrow> endianess \<Rightarrow> Value list \<Rightarrow> error + IntField" where
  "IntField_init size0 sg e vs =
     (if size0 \<notin> set Size_values then Inl ValueError
      else Inr \<lparr>f_size = size0, f_signed = sg, f_endianess = e, f_values = build_values vs\<rparr>)"

text \<open>The dictionary \<open>log2 = {1: 0, 2: 1, 4: 2, 8: 3}\<close>, indexed as the source does.\<close>

definition log2 :: "int \<Rightarrow> error + nat" where
  "log2 k =
     (if k = 1 then Inr 0 else if k = 2 then Inr 1 else if k = 4 then Inr 2
      else if k = 8 then Inr 3 else Inl KeyError)"

text \<open>The standard sizes of the codes \<open>b\<close>, \<open>h\<close>, \<open>i\<close>, \<open>q\<close>, by their index in \<open>'bhiq'\<close>.\<close>

definition code_size :: "nat \<Rightarrow> nat" where
  "code_size k = [1, 2, 4, 8] ! k"

definition IntField_sig :: "IntField \<Rightarrow> pyoffset \<Rightarrow> error + fmt" where
  "IntField_sig f size0 =
     (case log2 (obyte size0) of
        Inl e \<Rightarrow> Inl e
      | Inr k \<Rightarrow> Inr (FInt (f_endianess f) (code_size k) (f_signed f)))"

text \<open>\<open>self._values.get(res, res)\<close>\<close>

definition values_get :: "(int \<times> Value) list \<Rightarrow> pyval \<Rightarrow> decoded" where
  "values_get vals res =
     (case res of
        VInt n \<Rightarrow> (case map_of vals n of Some it \<Rightarrow> DValue it | None \<Rightarrow> DRaw res)
      | VBytes bs \<Rightarrow> DRaw res
      | VStr s \<Rightarrow> DRaw res)"

text \<open>
  \<open>decode\<close> and \<open>encode\<close> of a field that is bound on the instance: there
  \<open>self.__get__(instance)['size']\<close> is \<open>Size(byte=n)\<close>, with \<open>n\<close> the size of the
  field.
\<close>

definition IntField_decode :: "Data \<Rightarrow> IntField \<Rightarrow> pyoffset \<Rightarrow> error + decoded" where
  "IntField_decode d f offset =
     (case IntField_sig f (BoundValue_size (f_size f)) of
        Inl e \<Rightarrow> Inl e
      | Inr sig \<Rightarrow>
          (case unpack_from d sig (PyInt (obyte offset)) of
             Inl e \<Rightarrow> Inl e
           | Inr res \<Rightarrow> Inr (values_get (f_values f) res)))"

definition IntField_encode :: "Data \<Rightarrow> IntField \<Rightarrow> pyoffset \<Rightarrow> pyval \<Rightarrow> error option \<times> Data" where
  "IntField_encode d f offset v =
     (case IntField_sig f (BoundValue_size (f_size f)) of
        Inl e \<Rightarrow> (Some e, d)
      | Inr sig \<Rightarrow> pack_into d sig (PyInt (obyte offset)) v)"

subsection \<open>ByteArrayField\<close>

text \<open>
  \<open>value.ljust(width, fill)\<close>: bytes take a fill of one byte, a str takes a fill of one
  character, an integer has no such method.
\<close>

definition py_ljust :: "pyval \<Rightarrow> int \<Rightarrow> pyval \<Rightarrow> error + pyval" where
  "py_ljust v width fill =
     (case v of
        VInt i \<Rightarrow> Inl AttributeError
      | VBytes bs \<Rightarrow>
          (case fill of
             VBytes [c] \<Rightarrow> Inr (VBytes (bs @ replicate (nat (width - int (length bs))) c))
           | _ \<Rightarrow> Inl TypeError)
      | VStr s \<Rightarrow>
          (case fill of
             VStr [c] \<Rightarrow> Inr (VStr (s @ replicate (nat (width - int (length s))) c))
           | _ \<Rightarrow> Inl TypeError))"

text \<open>\<open>value[:n]\<close>: a negative bound counts from the end.\<close>

definition slice_to :: "'a list \<Rightarrow> int \<Rightarrow> 'a list" where
  "slice_to xs n = (if n < 0 then take (nat (int (length xs) + n)) xs else take (nat n) xs)"

definition py_slice_to :: "pyval \<Rightarrow> int \<Rightarrow> error + pyval" where
  "py_slice_to v n =
     (case v of
        VInt i \<Rightarrow> Inl TypeError
      | VBytes bs \<Rightarrow> Inr (VBytes (slice_to bs n))
      | VStr s \<Rightarrow> Inr (VStr (slice_to s n)))"

definition ByteArrayField_sig :: "pyoffset \<Rightarrow> fmt" where
  "ByteArrayField_sig size0 = FBytes (obyte size0)"

definition ByteArrayField_decode :: "Data \<Rightarrow> int \<Rightarrow> pyoffset \<Rightarrow> error + pyval" where
  "ByteArrayField_decode d n offset =
     unpack_from d (ByteArrayField_sig (BoundValue_size n)) (PyInt (obyte offset))"

text \<open>The fill argument of the source is the str literal \<open>'\x00'\<close>.\<close>

definition ByteArrayField_encode :: "Data \<Rightarrow> int \<Rightarrow> pyoffset \<Rightarrow> pyval \<Rightarrow> error option \<times> Data" where
  "ByteArrayField_encode d n offset v =
     (let size0 = BoundValue_size n
      in case py_ljust v (obyte size0) (VStr [CHR 0x00]) of
           Inl e \<Rightarrow> (Some e, d)
         | Inr v1 \<Rightarrow>
             (case py_slice_to v1 (obyte size0) of
                Inl e \<Rightarrow> (Some e, d)
              | Inr v2 \<Rightarrow> pack_into d (ByteArrayField_sig size0) (PyInt (obyte offset)) v2))"

subsection \<open>BitField\<close>

text \<open>
  What the property \<open>size\<close> of a bit field's bound value evaluates to: a \<open>Size\<close>, or an
  exception object handed back as the value.
\<close>

datatype size_prop = SizeVal pyoffset | ExcVal error

text \<open>\<open>Size(bit=n)\<close>\<close>

definition Size_bit :: "int \<Rightarrow> pyoffset" where
  "Size_bit n = Offset_init Size (FromInt 0) n"

definition enclosing :: "pyoffset \<Rightarrow> pyoffset \<Rightarrow> int" where
  "enclosing size0 offset = rounded (offset_add size0 (OpOffset (Size_bit (obit offset))))"

definition BitFieldBoundValue_size :: "int \<Rightarrow> pyoffset \<Rightarrow> error + size_prop" where
  "BitFieldBoundValue_size w offset =
     (let size0 = Size_bit w
      in if enclosing size0 offset \<notin> set Size_values
         then Inr (ExcVal (BifFieldSizeError size0))
         else Inr (SizeVal size0))"

text \<open>\<open>a << n\<close> and \<open>a >> n\<close> on Python integers: a negative shift count raises.\<close>

definition py_lshift :: "int \<Rightarrow> int \<Rightarrow> error + int" where
  "py_lshift a n = (if n < 0 then Inl ValueError else Inr (push_bit (nat n) a))"

definition py_rshift :: "int \<Rightarrow> int \<Rightarrow> error + int" where
  "py_rshift a n = (if n < 0 then Inl ValueError else Inr (drop_bit (nat n) a))"

definition BitField_mask :: "pyoffset \<Rightarrow> error + int" where
  "BitField_mask size0 =
     (case py_lshift 1 (obyte size0 * 8 + obit size0) of
        Inl e \<Rightarrow> Inl e
      | Inr m \<Rightarrow> Inr (m - 1))"

text \<open>
  \<open>'<' + 'BHIQ'[log2[(size + Size(bit=offset.bit)).rounded()]]\<close>. An exception object
  in the place of the size has no addition with a \<open>Size\<close>.
\<close>

definition BitField_sig :: "size_prop \<Rightarrow> pyoffset \<Rightarrow> error + fmt" where
  "BitField_sig sp offset =
     (case sp of
        ExcVal x \<Rightarrow> Inl TypeError
      | SizeVal size0 \<Rightarrow>
          (case log2 (enclosing size0 offset) of
             Inl e \<Rightarrow> Inl e
           | Inr k \<Rightarrow> Inr (FInt LITTLE (code_size k) False)))"

definition BitField_decode :: "Data \<Rightarrow> size_prop \<Rightarrow> pyoffset \<Rightarrow> error + int" where
  "BitField_decode d sp offset =
     (case BitField_sig sp offset of
        Inl e \<Rightarrow> Inl e
      | Inr sig \<Rightarrow>
          (case unpack_from d sig (PyInt (rounded offset)) of
             Inl e \<Rightarrow> Inl e
           | Inr (VInt i) \<Rightarrow>
               (case sp of
                  ExcVal x \<Rightarrow> Inl TypeError
                | SizeVal size0 \<Rightarrow>
                    (case BitField_mask size0 of
                       Inl e \<Rightarrow> Inl e
                     | Inr m \<Rightarrow>
                         (case py_lshift m (obit offset) of
                            Inl e \<Rightarrow> Inl e
                          | Inr mask0 \<Rightarrow> py_rshift (i AND mask0) (obit offset))))
           | Inr _ \<Rightarrow> Inl TypeError))"

text \<open>
  In \<open>encode\<close> the offset argument of \<open>unpack_from\<close> is \<open>offset.rounded\<close>, the bound
  method, where \<open>decode\<close> passes \<open>offset.rounded()\<close>.
\<close>

definition BitField_encode :: "Data \<Rightarrow> size_prop \<Rightarrow> pyoffset \<Rightarrow> int \<Rightarrow> error option \<times> Data" where
  "BitField_encode d sp offset v =
     (case BitField_sig sp offset of
        Inl e \<Rightarrow> (Some e, d)
      | Inr sig \<Rightarrow>
          (case unpack_from d sig PyMethod of
             Inl e \<Rightarrow> (Some e, d)
           | Inr (VInt i) \<Rightarrow>
               (case sp of
                  ExcVal x \<Rightarrow> (Some TypeError, d)
                | SizeVal size0 \<Rightarrow>
                    (case BitField_mask size0 of
                       Inl e \<Rightarrow> (Some e, d)
                     | Inr m \<Rightarrow>
                         (case py_lshift m (obit offset) of
                            Inl e \<Rightarrow> (Some e, d)
                          | Inr mask0 \<Rightarrow>
                              (case py_lshift (v AND m) (obit offset) of
                                 Inl e \<Rightarrow> (Some e, d)
                               | Inr shifted \<Rightarrow>
                                   pack_into d sig (PyInt (rounded offset))
                                     (VInt ((i AND NOT mask0) OR shifted))))))
           | Inr _ \<Rightarrow> (Some TypeError, d)))"

subsection \<open>BitMaskField\<close>

text \<open>An element of the list \<open>BitMaskField.decode\<close> returns: a \<open>Value\<close> or a bare integer.\<close>

datatype mask_entry = Named Value | Unnamed int

text \<open>The loop over \<open>self._values.items()\<close>, with its two accumulators.\<close>

fun BitMaskField_loop ::
  "(int \<times> Value) list \<Rightarrow> int \<Rightarrow> mask_entry list \<Rightarrow> int \<Rightarrow> mask_entry list \<times> int" where
  "BitMaskField_loop [] nb res mask0 = (res, mask0)"
| "BitMaskField_loop ((val_num, val) # rest) nb res mask0 =
     (if val_num AND nb \<noteq> 0
      then BitMaskField_loop rest nb (res @ [Named val]) (mask0 OR val_num)
      else BitMaskField_loop rest nb res mask0)"

text \<open>The body of \<open>BitMaskField.decode\<close> after the call of \<open>IntField.decode\<close>.\<close>

definition BitMaskField_collect :: "(int \<times> Value) list \<Rightarrow> decoded \<Rightarrow> error + mask_entry list" where
  "BitMaskField_collect vals nb0 =
     (case nb0 of
        DValue it \<Rightarrow> Inr [Named it]
      | DRaw (VInt nb) \<Rightarrow>
          (let (res, mask0) = BitMaskField_loop vals nb [] 0;
               res1 = (if mask0 \<noteq> nb then res @ [Unnamed (nb XOR mask0)] else res)
           in Inr (if res1 \<noteq> [] then res1 else [Unnamed nb]))
      | DRaw _ \<Rightarrow> Inl TypeError)"

definition BitMaskField_decode :: "Data \<Rightarrow> IntField \<Rightarrow> pyoffset \<Rightarrow> error + mask_entry list" where
  "BitMaskField_decode d f offset =
     (case IntField_decode d f offset of
        Inl e \<Rightarrow> Inl e
      | Inr nb0 \<Rightarrow> BitMaskField_collect (f_values f) nb0)"

section \<open>Bound values of the integer-typed fields\<close>

text \<open>
  \<open>IntFieldBoundValue\<close> is the class of the bound values of an \<open>IntField\<close>, and of a
  \<open>BitField\<close> through \<open>BitFieldBoundValue\<close>. A bound value holds the instance, whose
  Data object is all that its value depends on, the field (a bit field is given by its
  width in bits) and the offset.
\<close>

datatype int_field = AnIntField IntField | ABitField int

record IntFieldBoundValue =
  ibv_data :: Data
  ibv_field :: int_field
  ibv_offset :: pyoffset

text \<open>
  \<open>self['value']\<close>: \<open>BoundValue._value\<close> calls \<open>decode\<close> of the field at the offset of
  the bound value, each time it is evaluated.
\<close>

definition BoundValue_getitem_value :: "IntFieldBoundValue \<Rightarrow> error + pyval" where
  "BoundValue_getitem_value bv =
     (case ibv_field bv of
        AnIntField f \<Rightarrow> BoundValue_value (IntField_decode (ibv_data bv) f (ibv_offset bv))
      | ABitField w \<Rightarrow>
          (case BitFieldBoundValue_size w (ibv_offset bv) of
             Inl e \<Rightarrow> Inl e
           | Inr sp \<Rightarrow>
               BoundValue_value
                 (case BitField_decode (ibv_data bv) sp (ibv_offset bv) of
                    Inl e \<Rightarrow> Inl e
                  | Inr i \<Rightarrow> Inr (DRaw (VInt i)))))"

text \<open>
  Modelled from the spec: the class \<open>NamedDict\<close> (\<open>srddl/core/nameddict.py\<close>), which
  decides what the attribute access \<open>self.value\<close> of \<open>BoundValue.__lt__\<close> evaluates to,
  is not among the sources. The specification has bound values ordered by comparing
  the decoded \<open>value\<close>, so \<open>self.value\<close> is the property \<open>self['value']\<close>.
\<close>

definition NamedDict_getattr_value :: "IntFieldBoundValue \<Rightarrow> error + pyval" where
  "NamedDict_getattr_value bv = BoundValue_getitem_value bv"

text \<open>
  \<open><\<close> between two Python values: integers by their order, two bytes objects or two
  strs lexicographically; values of different types are not ordered.
\<close>

fun lex_lt :: "nat list \<Rightarrow> nat list \<Rightarrow> bool" where
  "lex_lt [] [] = False"
| "lex_lt [] (y # ys) = True"
| "lex_lt (x # xs) [] = False"
| "lex_lt (x # xs) (y # ys) = (x < y \<or> (x = y \<and> lex_lt xs ys))"

definition py_lt :: "pyval \<Rightarrow> pyval \<Rightarrow> error + bool" where
  "py_lt a b =
     (case (a, b) of
        (VInt x, VInt y) \<Rightarrow> Inr (x < y)
      | (VBytes x, VBytes y) \<Rightarrow> Inr (lex_lt (map unat x) (map unat y))
      | (VStr x, VStr y) \<Rightarrow> Inr (lex_lt (map of_char x) (map of_char y))
      | _ \<Rightarrow> Inl TypeError)"

text \<open>
  The right operand of a comparison with a bound value: another bound value, or any
  other value.
\<close>

datatype cmp_operand = CmpBoundValue IntFieldBoundValue | CmpOther pyval

definition BoundValue_eq :: "IntFieldBoundValue \<Rightarrow> cmp_operand \<Rightarrow> error + bool" where
  "BoundValue_eq self other =
     (case BoundValue_getitem_value self of
        Inl e \<Rightarrow> Inl e
      | Inr a \<Rightarrow>
          (case other of
             CmpBoundValue b \<Rightarrow>
               (case BoundValue_getitem_value b of
                  Inl e \<Rightarrow> Inl e
                | Inr c \<Rightarrow> Inr (a = c))
           | CmpOther c \<Rightarrow> Inr (a = c)))"

definition BoundValue_lt :: "IntFieldBoundValue \<Rightarrow> cmp_operand \<Rightarrow> error + bool" where
  "BoundValue_lt self other =
     (case NamedDict_getattr_value self of
        Inl e \<Rightarrow> Inl e
      | Inr a \<Rightarrow>
          (case other of
             CmpBoundValue b \<Rightarrow>
               (case NamedDict_getattr_value b of
                  Inl e \<Rightarrow> Inl e
                | Inr c \<Rightarrow> py_lt a c)
           | CmpOther c \<Rightarrow> py_lt a c))"

text \<open>
  The three operators \<open>functools.total_ordering\<close> derives from \<open>__lt__\<close>: \<open><=\<close> is
  \<open>self < other or self == other\<close>, \<open>>\<close> is \<open>not self < other and self != other\<close>, and
  \<open>>=\<close> is \<open>not self < other\<close>; \<open>!=\<close> negates \<open>__eq__\<close>.
\<close>

definition BoundValue_le :: "IntFieldBoundValue \<Rightarrow> cmp_operand \<Rightarrow> error + bool" where
  "BoundValue_le self other =
     (case BoundValue_lt self other of
        Inl e \<Rightarrow> Inl e
      | Inr r \<Rightarrow> if r then Inr True else BoundValue_eq self other)"

definition BoundValue_gt :: "IntFieldBoundValue \<Rightarrow> cmp_operand \<Rightarrow> error + bool" where
  "BoundValue_gt self other =
     (case BoundValue_lt self other of
        Inl e \<Rightarrow> Inl e
      | Inr r \<Rightarrow>
          if r then Inr False
          else (case BoundValue_eq self other of
                  Inl e \<Rightarrow> Inl e
                | Inr q \<Rightarrow> Inr (\<not> q)))"

definition BoundValue_ge :: "IntFieldBoundValue \<Rightarrow> cmp_operand \<Rightarrow> error + bool" where
  "BoundValue_ge self other =
     (case BoundValue_lt self other of
        Inl e \<Rightarrow> Inl e
      | Inr r \<Rightarrow> Inr (\<not> r))"

section \<open>Offset arithmetic\<close>

lemma Offset_init_bit: "0 \<le> obit (Offset_init c a b) \<and> obit (Offset_init c a b) < 8"
  by (cases a) (simp_all add: Offset_init_def)

lemma Offset_init_klass: "klass (Offset_init c a b) = c"
  by (cases a) (simp_all add: Offset_init_def)

lemma Offset_init_normal:
  assumes "0 \<le> b" and "b < 8"
  shows "Offset_init c (FromInt n) b = \<lparr>klass = c, obyte = n, obit = b\<rparr>"
  using assms by (simp add: Offset_init_def)

lemma offset_add_bit: "0 \<le> obit (offset_add x d) \<and> obit (offset_add x d) < 8"
  by (cases d) (simp_all add: offset_add_def Let_def Offset_init_bit)

lemma offset_sub_bit: "0 \<le> obit (offset_sub x d) \<and> obit (offset_sub x d) < 8"
  by (cases d) (simp_all add: offset_sub_def Let_def Offset_init_bit)

lemma and_7_eq_mod: "(k::int) AND 7 = k mod 8"
proof -
  have "k AND mask 3 = k mod 2 ^ 3"
    by (simp only: take_bit_eq_mask [symmetric] take_bit_eq_mod)
  then show ?thesis
    by (simp add: mask_eq_exp_minus_1)
qed

lemma drop_bit_3_eq_div: "drop_bit 3 (k::int) = k div 8"
  by (simp add: drop_bit_eq_div)

lemma offset_add_sub_int:
  assumes "0 \<le> obit x" and "obit x < 8"
  shows "offset_sub (offset_add x (OpInt n)) (OpInt n) = x"
  using assms by (simp add: offset_add_def offset_sub_def Offset_init_def)

lemma offset_add_sub_offset:
  assumes "0 \<le> obit x" and "obit x < 8" and "0 \<le> obit y" and "obit y < 8"
  shows "offset_sub (offset_add x (OpOffset y)) (OpOffset y) = x"
proof (cases "obit x + obit y < 8")
  case True
  with assms have d: "(obit x + obit y) div 8 = 0" and m: "(obit x + obit y) mod 8 = obit x + obit y"
    by simp_all
  show ?thesis
    using assms True
    by (simp add: offset_add_def offset_sub_def Offset_init_def Let_def
        and_7_eq_mod drop_bit_3_eq_div d m)
next
  case False
  with assms have r: "8 \<le> obit x + obit y" "obit x + obit y < 16"
    by arith+
  from r have d: "(obit x + obit y) div 8 = 1"
    by presburger
  from r have m: "(obit x + obit y) mod 8 = obit x + obit y - 8"
    by presburger
  show ?thesis
    using assms False
    by (simp add: offset_add_def offset_sub_def Offset_init_def Let_def
        and_7_eq_mod drop_bit_3_eq_div d m)
qed

text \<open>
  Claim C5. An offset built by the constructor, plus a delta and minus the same delta,
  is the offset again, for an integer delta and for a delta that is itself an \<open>Offset\<close>
  or a \<open>Size\<close>; the result also compares equal with \<open>==\<close>. The bit component of every
  constructed offset, of every sum and of every difference lies in [0,8).
\<close>

theorem offset_roundtrip:
  "offset_sub (offset_add (Offset_init c a b) (OpInt n)) (OpInt n) = Offset_init c a b
   \<and> offset_sub (offset_add (Offset_init c a b) (OpOffset (Offset_init c' a' b')))
        (OpOffset (Offset_init c' a' b')) = Offset_init c a b
   \<and> offset_eq (offset_sub (offset_add (Offset_init c a b) (OpInt n)) (OpInt n))
        (OpOffset (Offset_init c a b))
   \<and> offset_eq (offset_sub (offset_add (Offset_init c a b) (OpOffset (Offset_init c' a' b')))
        (OpOffset (Offset_init c' a' b'))) (OpOffset (Offset_init c a b))
   \<and> 0 \<le> obit (Offset_init c a b) \<and> obit (Offset_init c a b) < 8
   \<and> 0 \<le> obit (offset_add x d) \<and> obit (offset_add x d) < 8
   \<and> 0 \<le> obit (offset_sub x d) \<and> obit (offset_sub x d) < 8"
proof -
  have i: "offset_sub (offset_add (Offset_init c a b) (OpInt n)) (OpInt n) = Offset_init c a b"
    using Offset_init_bit [of c a b] by (simp add: offset_add_sub_int)
  have o: "offset_sub (offset_add (Offset_init c a b) (OpOffset (Offset_init c' a' b')))
        (OpOffset (Offset_init c' a' b')) = Offset_init c a b"
    using Offset_init_bit [of c a b] Offset_init_bit [of c' a' b']
    by (simp add: offset_add_sub_offset)
  show ?thesis
    unfolding i o
    using Offset_init_bit [of c a b] offset_add_bit [of x d] offset_sub_bit [of x d]
    by (simp add: offset_eq_def)
qed

section \<open>The encoders that never write\<close>

lemma BitField_encode_raises:
  "fst (BitField_encode d sp offset v) \<noteq> None \<and> snd (BitField_encode d sp offset v) = d"
proof (cases "BitField_sig sp offset")
  case (Inl e)
  then show ?thesis by (simp add: BitField_encode_def)
next
  case (Inr sig)
  then obtain e n sg where s: "sig = FInt e n sg"
    by (auto simp: BitField_sig_def split: size_prop.splits sum.splits)
  have "unpack_from d sig PyMethod = Inl TypeError"
    by (simp add: s unpack_from_def struct_unpack_from_def calcsize_def locate_def)
  with Inr show ?thesis by (simp add: BitField_encode_def)
qed

text \<open>
  A width whose enclosing byte count is 3 has no enclosing integer: the size property is
  the exception object, and \<open>decode\<close> fails on it.
\<close>

lemma BitField_decode_width_17:
  "BitFieldBoundValue_size 17 (Offset_init Offset (FromInt 0) 0)
     = Inr (ExcVal (BifFieldSizeError (Size_bit 17)))
   \<and> BitField_decode \<lparr>buf = \<lparr>content = [0, 0, 0], assignable = True\<rparr>, ro = False\<rparr>
        (ExcVal (BifFieldSizeError (Size_bit 17))) (Offset_init Offset (FromInt 0) 0)
      = Inl TypeError"
  by (simp add: BitFieldBoundValue_size_def BitField_decode_def BitField_sig_def enclosing_def
      Size_bit_def Offset_init_def offset_add_def rounded_def Size_values_def Let_def)

text \<open>
  Claim C2, at a bit field of width 3 at bit 0 of a writable one-byte buffer: the size
  property is a proper \<open>Size\<close>, and \<open>encode\<close> of the value 5 raises \<open>TypeError\<close> at its
  read of the enclosing integer, leaving the buffer as it was. No value is written, so
  there is nothing for \<open>decode\<close> to read back.
\<close>

theorem BitField_encode_TypeError:
  "BitFieldBoundValue_size 3 (Offset_init Offset (FromInt 0) 0) = Inr (SizeVal (Size_bit 3))
   \<and> BitField_encode \<lparr>buf = \<lparr>content = [0], assignable = True\<rparr>, ro = False\<rparr>
        (SizeVal (Size_bit 3)) (Offset_init Offset (FromInt 0) 0) 5
      = (Some TypeError, \<lparr>buf = \<lparr>content = [0], assignable = True\<rparr>, ro = False\<rparr>)"
  by (simp add: BitFieldBoundValue_size_def BitField_encode_def BitField_sig_def enclosing_def
      Size_bit_def Offset_init_def offset_add_def rounded_def Size_values_def log2_def
      unpack_from_def struct_unpack_from_def calcsize_def locate_def Let_def)

lemma ByteArrayField_encode_raises:
  "fst (ByteArrayField_encode d n offset v) \<noteq> None \<and> snd (ByteArrayField_encode d n offset v) = d"
proof (cases v)
  case (VInt i)
  then show ?thesis by (simp add: ByteArrayField_encode_def py_ljust_def)
next
  case (VBytes bs)
  then show ?thesis by (simp add: ByteArrayField_encode_def py_ljust_def)
next
  case (VStr s)
  then show ?thesis
    by (simp add: ByteArrayField_encode_def py_ljust_def py_slice_to_def pack_into_def
        struct_pack_into_def pack_value_def ByteArrayField_sig_def calcsize_def Let_def
        split: sum.splits)
qed

text \<open>
  Claim C8, at a byte array field of size 4 and the two bytes \<open>b'ab'\<close>: \<open>encode\<close> raises
  \<open>TypeError\<close> in \<open>ljust\<close>, whose fill argument is a str, and writes nothing.
\<close>

theorem ByteArrayField_encode_TypeError:
  "ByteArrayField_encode \<lparr>buf = \<lparr>content = [0, 0, 0, 0], assignable = True\<rparr>, ro = False\<rparr>
      4 (Offset_init Offset (FromInt 0) 0) (VBytes [97, 98])
   = (Some TypeError, \<lparr>buf = \<lparr>content = [0, 0, 0, 0], assignable = True\<rparr>, ro = False\<rparr>)"
  by (simp add: ByteArrayField_encode_def py_ljust_def)

section \<open>The field lifecycle\<close>

lemma get_wrapper_not_ready:
  "fd ''status'' = Some (DStatus st) \<Longrightarrow> st \<noteq> OK \<Longrightarrow> get_wrapper fd = Inl FieldNotReadyError"
  by (simp add: get_wrapper_def get_data_def)

lemma get_wrapper_after_initialize_wrapper:
  "get_wrapper (initialize_wrapper Map.empty) = Inl NoFieldDataError"
  by (simp add: get_wrapper_def initialize_wrapper_def get_data_def set_data_def
      AbstractField_get_def Let_def)

text \<open>
  Claim C6, at a field that was never initialised on the instance (no status entry):
  the read raises \<open>NoFieldDataError\<close>, where the wrapper of \<open>initialize\<close> takes the
  missing entry for the status \<open>KO\<close>.
\<close>

theorem get_wrapper_no_status: "get_wrapper Map.empty = Inl NoFieldDataError"
  by (simp add: get_wrapper_def get_data_def)

section \<open>Writes to a read-only Data object\<close>

lemma IntField_encode_ro:
  assumes "ro d"
  shows "fst (IntField_encode d f off v) \<noteq> None \<and> snd (IntField_encode d f off v) = d"
  using assms by (simp add: IntField_encode_def pack_into_def split: sum.splits)

text \<open>
  Claim C4, as the code has it. On a Data object whose \<open>ro\<close> flag is set, \<open>pack_into\<close>
  raises the builtin \<open>Exception\<close> with the message \<open>fu\<close> before anything is written,
  and so does \<open>encode\<close> of an \<open>IntField\<close> of a valid size; the \<open>encode\<close> of every
  field fails and leaves the Data object, its bytes included, as it was.
\<close>

theorem pack_into_read_only:
  assumes "ro d"
  shows "pack_into d f a v = (Some (PyException ''fu''), d)
    \<and> (f_size fld \<in> set Size_values
         \<longrightarrow> IntField_encode d fld off v = (Some (PyException ''fu''), d))
    \<and> fst (IntField_encode d fld off v) \<noteq> None \<and> snd (IntField_encode d fld off v) = d
    \<and> fst (ByteArrayField_encode d n off v) \<noteq> None \<and> snd (ByteArrayField_encode d n off v) = d
    \<and> fst (BitField_encode d sp off i) \<noteq> None \<and> snd (BitField_encode d sp off i) = d"
proof -
  have p: "pack_into d f a v = (Some (PyException ''fu''), d)" for f a v
    using assms by (simp add: pack_into_def)
  have s: "f_size fld \<in> set Size_values \<Longrightarrow> \<exists>sig. IntField_sig fld (BoundValue_size (f_size fld)) = Inr sig"
    by (auto simp: Size_values_def IntField_sig_def BoundValue_size_def Offset_init_def log2_def)
  have i: "f_size fld \<in> set Size_values \<longrightarrow> IntField_encode d fld off v = (Some (PyException ''fu''), d)"
    using s by (auto simp: IntField_encode_def p)
  show ?thesis
    using p i IntField_encode_ro [OF assms] ByteArrayField_encode_raises BitField_encode_raises
    by simp
qed

text \<open>
  The exception of a write to a read-only Data object is not \<open>ReadOnlyError\<close>.
\<close>

theorem pack_into_read_only_counterexample:
  "fst (pack_into \<lparr>buf = \<lparr>content = [0], assignable = True\<rparr>, ro = True\<rparr>
      (FInt LITTLE 1 False) (PyInt 0) (VInt 5)) = Some (PyException ''fu'')
   \<and> fst (pack_into \<lparr>buf = \<lparr>content = [0], assignable = True\<rparr>, ro = True\<rparr>
      (FInt LITTLE 1 False) (PyInt 0) (VInt 5)) \<noteq> Some ReadOnlyError"
  by (simp add: pack_into_def)

theorem pack_into_read_only_witness:
  "ro \<lparr>buf = \<lparr>content = [0], assignable = True\<rparr>, ro = True\<rparr>
   \<and> pack_into \<lparr>buf = \<lparr>content = [0], assignable = True\<rparr>, ro = True\<rparr>
        (FInt LITTLE 1 False) (PyInt 0) (VInt 5)
      = (Some (PyException ''fu''), \<lparr>buf = \<lparr>content = [0], assignable = True\<rparr>, ro = True\<rparr>)
   \<and> f_size \<lparr>f_size = 1, f_signed = False, f_endianess = LITTLE, f_values = []\<rparr>
        \<in> set Size_values
   \<and> IntField_encode \<lparr>buf = \<lparr>content = [0], assignable = True\<rparr>, ro = True\<rparr>
        \<lparr>f_size = 1, f_signed = False, f_endianess = LITTLE, f_values = []\<rparr>
        (Offset_init Offset (FromInt 0) 0) (VInt 5)
      = (Some (PyException ''fu''), \<lparr>buf = \<lparr>content = [0], assignable = True\<rparr>, ro = True\<rparr>)"
  using pack_into_read_only [of "\<lparr>buf = \<lparr>content = [0], assignable = True\<rparr>, ro = True\<rparr>"
      "FInt LITTLE 1 False" "PyInt 0" "VInt 5"
      "\<lparr>f_size = 1, f_signed = False, f_endianess = LITTLE, f_values = []\<rparr>"
      "Offset_init Offset (FromInt 0) 0"]
  by (simp add: Size_values_def)


section \<open>The size of a bit field\<close>

text \<open>
  Claim C7, at a bit field of width 64 starting at bit 1: the property \<open>size\<close> raises
  nothing; it evaluates to the exception object, handed back as the size.
\<close>

theorem BitFieldBoundValue_size_returns_exception:
  "BitFieldBoundValue_size 64 (Offset_init Offset (FromInt 0) 1)
   = Inr (ExcVal (BifFieldSizeError (Size_bit 64)))"
  by (simp add: BitFieldBoundValue_size_def enclosing_def Size_bit_def Offset_init_def
      offset_add_def rounded_def Size_values_def Let_def)

section \<open>Decoding a bit mask\<close>

lemma BitMaskField_loop_filter:
  "BitMaskField_loop vals nb res m =
     (res @ map (\<lambda>p. Named (snd p)) (filter (\<lambda>p. fst p AND nb \<noteq> 0) vals),
      fold (\<lambda>p acc. acc OR fst p) (filter (\<lambda>p. fst p AND nb \<noteq> 0) vals) m)"
  by (induction vals arbitrary: res m) auto

lemma BitMaskField_collect_int:
  "BitMaskField_collect vals (values_get vals (VInt n)) =
     Inr (case map_of vals n of
            Some it \<Rightarrow> [Named it]
          | None \<Rightarrow>
              (let hits = filter (\<lambda>p. fst p AND n \<noteq> 0) vals;
                   m = fold (\<lambda>p acc. acc OR fst p) hits 0;
                   res = map (\<lambda>p. Named (snd p)) hits
                         @ (if m \<noteq> n then [Unnamed (n XOR m)] else [])
               in if res \<noteq> [] then res else [Unnamed n]))"
  by (simp add: BitMaskField_collect_def values_get_def BitMaskField_loop_filter Let_def
      split: option.split)

section \<open>Integers to bytes and back\<close>

lemma length_int_to_le: "length (int_to_le n v) = n"
  by (induction n arbitrary: v) simp_all

lemma le_to_int_int_to_le: "le_to_int (int_to_le n v) = v mod 2 ^ (8 * n)"
proof (induction n arbitrary: v)
  case 0
  show ?case by simp
next
  case (Suc n)
  have p: "(2::int) ^ (8 * Suc n) = 256 * 2 ^ (8 * n)"
    by (simp add: power_add)
  have u: "uint (word_of_int v :: byte) = v mod 256"
    by (simp add: uint_word_of_int_eq take_bit_eq_mod)
  have "v mod (256 * 2 ^ (8 * n)) = 256 * (v div 256 mod 2 ^ (8 * n)) + v mod 256"
    by (rule zmod_zmult2_eq) simp
  then show ?case
    by (simp only: int_to_le.simps le_to_int.simps Suc.IH u p)
qed

lemma bytes_to_int_int_to_bytes:
  assumes "0 < n" and "in_range n sg v"
  shows "bytes_to_int e n sg (int_to_bytes e n v) = v"
proof -
  define P :: int where "P = 2 ^ (8 * n - 1)"
  have P: "0 < P" by (simp add: P_def)
  from assms(1) have "8 * n = Suc (8 * n - 1)" by simp
  then have "(2::int) ^ (8 * n) = 2 * 2 ^ (8 * n - 1)"
    by (metis power_Suc)
  then have Q: "(2::int) ^ (8 * n) = 2 * P" by (simp add: P_def)
  have u: "le_to_int (if e = LITTLE then int_to_bytes e n v else rev (int_to_bytes e n v))
      = v mod (2 * P)"
    by (simp add: int_to_bytes_def le_to_int_int_to_le Q)
  have B: "bytes_to_int e n sg (int_to_bytes e n v) =
      (if sg \<and> P \<le> v mod (2 * P) then v mod (2 * P) - 2 * P else v mod (2 * P))"
    unfolding bytes_to_int_def Let_def u Q P_def [symmetric] by (rule refl)
  have R: "in_range n sg v = (if sg then - P \<le> v \<and> v < P else 0 \<le> v \<and> v < 2 * P)"
    unfolding in_range_def Q P_def [symmetric] by (rule refl)
  show ?thesis
  proof (cases "0 \<le> v")
    case True
    from assms(2) P have "v < 2 * P"
      unfolding R by (simp split: if_splits)
    with True have m: "v mod (2 * P) = v" by simp
    from assms(2) have "sg \<Longrightarrow> v < P"
      unfolding R by simp
    then show ?thesis
      unfolding B m by auto
  next
    case False
    with assms(2) have sg: sg and r: "- P \<le> v"
      unfolding R by (simp_all split: if_splits)
    have "(v + 2 * P) mod (2 * P) = v mod (2 * P)" by simp
    moreover from False r P have "(v + 2 * P) mod (2 * P) = v + 2 * P"
      by (intro mod_pos_pos_trivial) simp_all
    ultimately have m: "v mod (2 * P) = v + 2 * P" by simp
    from r have "P \<le> v + 2 * P" by simp
    with sg show ?thesis
      unfolding B m by simp
  qed
qed

lemma struct_roundtrip:
  assumes "struct_pack_into (FInt e k sg) b a (VInt v) = Inr b'" and "0 < k"
  shows "struct_unpack_from (FInt e k sg) b' a = Inr (VInt v)"
proof -
  from assms(1) obtain j where
    l: "locate b a k = Inr j" and r: "in_range k sg v"
    and b': "b' = b\<lparr>content := take j (content b) @ int_to_bytes e k v @ drop (j + k) (content b)\<rparr>"
    by (auto simp: struct_pack_into_def calcsize_def pack_value_def
        split: if_splits sum.splits)
  from l obtain i where a: "a = PyInt i"
    by (cases a) (simp_all add: locate_def)
  from l have jk: "j + k \<le> length (content b)"
    by (auto simp: a locate_def Let_def split: if_splits)
  have len: "length (int_to_bytes e k v) = k"
    by (simp add: int_to_bytes_def length_int_to_le)
  have lc: "length (content b') = length (content b)"
    using jk by (simp add: b' len)
  have l': "locate b' a k = Inr j"
    using l by (simp add: a locate_def lc)
  have tk: "take k (drop j (content b')) = int_to_bytes e k v"
    using jk by (simp add: b' len)
  show ?thesis
    by (simp add: struct_unpack_from_def calcsize_def l' tk
        bytes_to_int_int_to_bytes [OF assms(2) r])
qed

lemma struct_pack_into_ok:
  assumes "assignable b" and "in_range k sg v" and "0 \<le> i"
    and "i + int k \<le> int (length (content b))"
  shows "\<exists>b'. struct_pack_into (FInt e k sg) b (PyInt i) (VInt v) = Inr b'"
  using assms
  by (simp add: struct_pack_into_def calcsize_def locate_def pack_value_def Let_def)

section \<open>The table of values\<close>

lemma update_keys_ok:
  assumes "\<And>k it. map_of m k = Some it \<Longrightarrow> v_value it = k"
    and "map_of (AList.update (v_value x) x m) k = Some it"
  shows "v_value it = k"
proof (cases "k = v_value x")
  case True
  with assms(2) have "it = x" by (simp add: update_conv')
  with True show ?thesis by simp
next
  case False
  with assms(2) have "map_of m k = Some it" by (simp add: update_conv')
  then show ?thesis by (rule assms(1))
qed

lemma fold_update_keys:
  assumes "\<And>k it. map_of m k = Some it \<Longrightarrow> v_value it = k"
    and "map_of (fold (\<lambda>it m. AList.update (v_value it) it m) vs m) k = Some it"
  shows "v_value it = k"
  using assms
proof (induction vs arbitrary: m)
  case Nil
  from Nil.prems(2) have "map_of m k = Some it" by simp
  then show ?case by (rule Nil.prems(1))
next
  case (Cons x xs)
  show ?case
  proof (rule Cons.IH)
    fix k' it'
    assume "map_of (AList.update (v_value x) x m) k' = Some it'"
    with Cons.prems(1) show "v_value it' = k'" by (rule update_keys_ok)
  next
    from Cons.prems(2)
    show "map_of (fold (\<lambda>it m. AList.update (v_value it) it m) xs
        (AList.update (v_value x) x m)) k = Some it"
      by simp
  qed
qed

lemma build_values_key:
  assumes "map_of (build_values vs) k = Some it"
  shows "v_value it = k"
proof (rule fold_update_keys)
  fix k' it'
  assume "map_of ([] :: (int \<times> Value) list) k' = Some it'"
  then show "v_value it' = k'" by simp
next
  from assms show "map_of (fold (\<lambda>it m. AList.update (v_value it) it m) vs []) k = Some it"
    by (simp add: build_values_def)
qed

lemma IntField_init_sig:
  assumes "IntField_init size0 sg e vs = Inr f"
  shows "IntField_sig f (BoundValue_size (f_size f)) = Inr (FInt e (nat size0) sg)
    \<and> 0 < nat size0 \<and> f_values f = build_values vs \<and> 0 < size0"
proof -
  from assms have s: "size0 = 1 \<or> size0 = 2 \<or> size0 = 4 \<or> size0 = 8"
    and f: "f = \<lparr>f_size = size0, f_signed = sg, f_endianess = e, f_values = build_values vs\<rparr>"
    by (auto simp: IntField_init_def Size_values_def split: if_splits)
  from s show ?thesis
    by (auto simp: f IntField_sig_def BoundValue_size_def Offset_init_def log2_def code_size_def)
qed

section \<open>Decoding a bit mask by subsets\<close>

lemma subset_bit:
  assumes "(m::int) AND n = m"
  shows "bit m i \<Longrightarrow> bit n i"
  using assms by (metis bit_and_iff)

lemma xor_subset:
  assumes "(m::int) AND n = m"
  shows "n XOR m = n AND NOT m"
proof (rule bit_eqI)
  fix i
  show "bit (n XOR m) i = bit (n AND NOT m) i"
    using subset_bit [OF assms, of i]
    by (auto simp: bit_xor_iff bit_and_iff bit_not_iff)
qed

lemma fold_or_subset:
  assumes "(m::int) AND n = m" and "\<forall>p\<in>set hits. fst p AND n = fst p"
  shows "fold (\<lambda>p acc. acc OR fst p) hits m AND n = fold (\<lambda>p acc. acc OR fst p) hits m"
  using assms
proof (induction hits arbitrary: m)
  case Nil
  then show ?case by simp
next
  case (Cons p ps)
  have "(m OR fst p) AND n = (m AND n) OR (fst p AND n)"
    by (rule bit.conj_disj_distrib2)
  with Cons.prems have "(m OR fst p) AND n = m OR fst p" by simp
  with Cons.IH [of "m OR fst p"] Cons.prems(2) show ?case by simp
qed

lemma overlap_filter_subsets:
  assumes "\<forall>p\<in>set vals. fst p AND (n::int) \<noteq> 0 \<longrightarrow> fst p AND n = fst p"
  shows "filter (\<lambda>p. fst p AND n \<noteq> 0) vals = filter (\<lambda>p. fst p \<noteq> 0 \<and> fst p AND n = fst p) vals"
proof (rule filter_cong [OF refl])
  fix p :: "int \<times> 'a"
  assume "p \<in> set vals"
  with assms have s: "fst p AND n \<noteq> 0 \<Longrightarrow> fst p AND n = fst p" by blast
  show "(fst p AND n \<noteq> 0) = (fst p \<noteq> 0 \<and> fst p AND n = fst p)"
  proof
    assume o: "fst p AND n \<noteq> 0"
    then have "fst p \<noteq> 0" by auto
    with s [OF o] show "fst p \<noteq> 0 \<and> fst p AND n = fst p" by simp
  next
    assume "fst p \<noteq> 0 \<and> fst p AND n = fst p"
    then show "fst p AND n \<noteq> 0" by simp
  qed
qed

text \<open>
  Claim C3, as the code has it by design. When the decoded integer \<open>n\<close> is itself a raw
  value of the table, \<open>decode\<close> returns that entry alone. Otherwise, when every entry
  that shares a bit with \<open>n\<close> is a subset of \<open>n\<close>, \<open>decode\<close> returns, in table order,
  the \<open>Value\<close> of every entry that is a non-zero subset of \<open>n\<close>, followed, when the OR
  of their raw values does not cover \<open>n\<close>, by one unnamed entry, the uncovered bits of
  \<open>n\<close>; when the list would be empty it is \<open>[n]\<close>. In particular, when the non-zero
  subsets of \<open>n\<close> in the table are exactly two entries and \<open>n\<close> is the OR of their raw
  values, \<open>decode\<close> returns these two entries and nothing else.
\<close>

theorem BitMaskField_decode_subsets:
  assumes "IntField_sig f (BoundValue_size (f_size f)) = Inr sig"
    and "unpack_from d sig (PyInt (obyte off)) = Inr (VInt n)"
  shows "(map_of (f_values f) n = Some it \<longrightarrow> BitMaskField_decode d f off = Inr [Named it])
     \<and> (map_of (f_values f) n = None
          \<and> (\<forall>p\<in>set (f_values f). fst p AND n \<noteq> 0 \<longrightarrow> fst p AND n = fst p)
        \<longrightarrow> BitMaskField_decode d f off =
            Inr (let hits = filter (\<lambda>p. fst p \<noteq> 0 \<and> fst p AND n = fst p) (f_values f);
                     m = fold (\<lambda>p acc. acc OR fst p) hits 0;
                     res = map (\<lambda>p. Named (snd p)) hits
                           @ (if m \<noteq> n then [Unnamed (n AND NOT m)] else [])
                 in if res \<noteq> [] then res else [Unnamed n]))
     \<and> (map_of (f_values f) n = None
          \<and> (\<forall>p\<in>set (f_values f). fst p AND n \<noteq> 0 \<longrightarrow> fst p AND n = fst p)
          \<and> filter (\<lambda>p. fst p \<noteq> 0 \<and> fst p AND n = fst p) (f_values f) = [(a, A), (b, B)]
          \<and> a OR b = n
        \<longrightarrow> BitMaskField_decode d f off = Inr [Named A, Named B])"
proof -
  define hits where "hits = filter (\<lambda>p. fst p \<noteq> 0 \<and> fst p AND n = fst p) (f_values f)"
  define m where "m = fold (\<lambda>p acc. acc OR fst p) hits 0"
  have dec: "BitMaskField_decode d f off =
      BitMaskField_collect (f_values f) (values_get (f_values f) (VInt n))"
    using assms by (simp add: BitMaskField_decode_def IntField_decode_def)
  have one: "BitMaskField_decode d f off = Inr [Named it]" if "map_of (f_values f) n = Some it"
    unfolding dec BitMaskField_collect_int using that by simp
  have two: "BitMaskField_decode d f off =
      Inr (if map (\<lambda>p. Named (snd p)) hits @ (if m \<noteq> n then [Unnamed (n AND NOT m)] else []) \<noteq> []
           then map (\<lambda>p. Named (snd p)) hits @ (if m \<noteq> n then [Unnamed (n AND NOT m)] else [])
           else [Unnamed n])"
    if none: "map_of (f_values f) n = None"
      and c: "\<forall>p\<in>set (f_values f). fst p AND n \<noteq> 0 \<longrightarrow> fst p AND n = fst p"
  proof -
    have flt: "filter (\<lambda>p. fst p AND n \<noteq> 0) (f_values f) = hits"
      unfolding hits_def using c by (rule overlap_filter_subsets)
    have "\<forall>p\<in>set hits. fst p AND n = fst p"
      by (simp add: hits_def)
    then have "m AND n = m"
      unfolding m_def by (intro fold_or_subset) simp_all
    then have x: "n XOR m = n AND NOT m" by (rule xor_subset)
    have "BitMaskField_collect (f_values f) (values_get (f_values f) (VInt n)) =
        Inr (if map (\<lambda>p. Named (snd p)) hits @ (if m \<noteq> n then [Unnamed (n XOR m)] else []) \<noteq> []
             then map (\<lambda>p. Named (snd p)) hits @ (if m \<noteq> n then [Unnamed (n XOR m)] else [])
             else [Unnamed n])"
      unfolding BitMaskField_collect_int none flt Let_def option.case m_def [symmetric]
      by (rule refl)
    then show ?thesis
      unfolding dec x .
  qed
  have three: "BitMaskField_decode d f off = Inr [Named A, Named B]"
    if none: "map_of (f_values f) n = None"
      and c: "\<forall>p\<in>set (f_values f). fst p AND n \<noteq> 0 \<longrightarrow> fst p AND n = fst p"
      and h: "filter (\<lambda>p. fst p \<noteq> 0 \<and> fst p AND n = fst p) (f_values f) = [(a, A), (b, B)]"
      and ab: "a OR b = n"
  proof -
    from h have hs: "hits = [(a, A), (b, B)]" by (simp add: hits_def)
    then have "m = n" by (simp add: m_def ab)
    with two [OF none c] hs show ?thesis by simp
  qed
  from one two three show ?thesis
    unfolding hits_def m_def Let_def by blast
qed

text \<open>
  An entry that is a non-zero subset of the decoded integer is left out: with the
  entries 1 and 3 and the decoded integer 3, which is itself a raw value of the table,
  \<open>decode\<close> returns the entry 3 alone.
\<close>

theorem BitMaskField_decode_subsets_counterexample:
  "map_of (f_values
        \<lparr>f_size = 1, f_signed = False, f_endianess = LITTLE,
          f_values = build_values
            [\<lparr>v_value = 1, v_name = ''A'', v_description = ''''\<rparr>,
             \<lparr>v_value = 3, v_name = ''AB'', v_description = ''''\<rparr>]\<rparr>) 1
      = Some \<lparr>v_value = 1, v_name = ''A'', v_description = ''''\<rparr>
   \<and> (1::int) \<noteq> 0 \<and> (1::int) AND 3 = 1
   \<and> BitMaskField_decode \<lparr>buf = \<lparr>content = [3], assignable = True\<rparr>, ro = False\<rparr>
        \<lparr>f_size = 1, f_signed = False, f_endianess = LITTLE,
          f_values = build_values
            [\<lparr>v_value = 1, v_name = ''A'', v_description = ''''\<rparr>,
             \<lparr>v_value = 3, v_name = ''AB'', v_description = ''''\<rparr>]\<rparr>
        (Offset_init Offset (FromInt 0) 0)
      = Inr [Named \<lparr>v_value = 3, v_name = ''AB'', v_description = ''''\<rparr>]"
  by (simp add: BitMaskField_decode_def IntField_decode_def IntField_sig_def BoundValue_size_def
      Offset_init_def log2_def code_size_def unpack_from_def struct_unpack_from_def calcsize_def
      locate_def bytes_to_int_def values_get_def build_values_def BitMaskField_collect_def)

text \<open>
  The loop tests whether an entry shares a bit with the decoded integer: with the single
  entry 3 and the decoded integer 1, the entry is returned together with the unnamed
  entry 2.
\<close>

lemma BitMaskField_decode_overlap_at_1:
  "BitMaskField_decode \<lparr>buf = \<lparr>content = [1], assignable = True\<rparr>, ro = False\<rparr>
        \<lparr>f_size = 1, f_signed = False, f_endianess = LITTLE,
          f_values = build_values
            [\<lparr>v_value = 3, v_name = ''AB'', v_description = ''''\<rparr>]\<rparr>
        (Offset_init Offset (FromInt 0) 0)
   = Inr [Named \<lparr>v_value = 3, v_name = ''AB'', v_description = ''''\<rparr>, Unnamed 2]
   \<and> (3::int) AND 1 \<noteq> 3"
  by (simp add: BitMaskField_decode_def IntField_decode_def IntField_sig_def BoundValue_size_def
      Offset_init_def log2_def code_size_def unpack_from_def struct_unpack_from_def calcsize_def
      locate_def bytes_to_int_def values_get_def build_values_def BitMaskField_collect_def
      Let_def)

theorem BitMaskField_decode_subsets_witness:
  "BitMaskField_decode \<lparr>buf = \<lparr>content = [2], assignable = True\<rparr>, ro = False\<rparr>
        \<lparr>f_size = 1, f_signed = False, f_endianess = LITTLE,
          f_values = build_values
            [\<lparr>v_value = 1, v_name = ''A'', v_description = ''''\<rparr>,
             \<lparr>v_value = 2, v_name = ''B'', v_description = ''''\<rparr>]\<rparr>
        (Offset_init Offset (FromInt 0) 0)
      = Inr [Named \<lparr>v_value = 2, v_name = ''B'', v_description = ''''\<rparr>]
   \<and> BitMaskField_decode \<lparr>buf = \<lparr>content = [7], assignable = True\<rparr>, ro = False\<rparr>
        \<lparr>f_size = 1, f_signed = False, f_endianess = LITTLE,
          f_values = build_values
            [\<lparr>v_value = 1, v_name = ''A'', v_description = ''''\<rparr>,
             \<lparr>v_value = 2, v_name = ''B'', v_description = ''''\<rparr>]\<rparr>
        (Offset_init Offset (FromInt 0) 0)
      = Inr [Named \<lparr>v_value = 1, v_name = ''A'', v_description = ''''\<rparr>,
             Named \<lparr>v_value = 2, v_name = ''B'', v_description = ''''\<rparr>,
             Unnamed 4]
   \<and> BitMaskField_decode \<lparr>buf = \<lparr>content = [3], assignable = True\<rparr>, ro = False\<rparr>
        \<lparr>f_size = 1, f_signed = False, f_endianess = LITTLE,
          f_values = build_values
            [\<lparr>v_value = 1, v_name = ''A'', v_description = ''''\<rparr>,
             \<lparr>v_value = 2, v_name = ''B'', v_description = ''''\<rparr>]\<rparr>
        (Offset_init Offset (FromInt 0) 0)
      = Inr [Named \<lparr>v_value = 1, v_name = ''A'', v_description = ''''\<rparr>,
             Named \<lparr>v_value = 2, v_name = ''B'', v_description = ''''\<rparr>]"
proof -
  have sig: "IntField_sig
        \<lparr>f_size = 1, f_signed = False, f_endianess = LITTLE,
          f_values = build_values
            [\<lparr>v_value = 1, v_name = ''A'', v_description = ''''\<rparr>,
             \<lparr>v_value = 2, v_name = ''B'', v_description = ''''\<rparr>]\<rparr>
        (BoundValue_size (f_size
        \<lparr>f_size = 1, f_signed = False, f_endianess = LITTLE,
          f_values = build_values
            [\<lparr>v_value = 1, v_name = ''A'', v_description = ''''\<rparr>,
             \<lparr>v_value = 2, v_name = ''B'', v_description = ''''\<rparr>]\<rparr>))
      = Inr (FInt LITTLE 1 False)"
    by (simp add: IntField_sig_def BoundValue_size_def Offset_init_def log2_def code_size_def)
  have u: "unpack_from \<lparr>buf = \<lparr>content = [k], assignable = True\<rparr>, ro = False\<rparr>
      (FInt LITTLE 1 False) (PyInt (obyte (Offset_init Offset (FromInt 0) 0))) = Inr (VInt (uint k))" for k
    by (simp add: unpack_from_def struct_unpack_from_def calcsize_def locate_def
        bytes_to_int_def Offset_init_def)
  have vals: "build_values
        [\<lparr>v_value = 1, v_name = ''A'', v_description = ''''\<rparr>,
         \<lparr>v_value = 2, v_name = ''B'', v_description = ''''\<rparr>]
      = [(1, \<lparr>v_value = 1, v_name = ''A'', v_description = ''''\<rparr>),
         (2, \<lparr>v_value = 2, v_name = ''B'', v_description = ''''\<rparr>)]"
    by (simp add: build_values_def)
  have u2: "unpack_from \<lparr>buf = \<lparr>content = [2], assignable = True\<rparr>, ro = False\<rparr>
      (FInt LITTLE 1 False) (PyInt (obyte (Offset_init Offset (FromInt 0) 0))) = Inr (VInt 2)"
    using u [of 2] by simp
  have u3: "unpack_from \<lparr>buf = \<lparr>content = [3], assignable = True\<rparr>, ro = False\<rparr>
      (FInt LITTLE 1 False) (PyInt (obyte (Offset_init Offset (FromInt 0) 0))) = Inr (VInt 3)"
    using u [of 3] by simp
  have u7: "unpack_from \<lparr>buf = \<lparr>content = [7], assignable = True\<rparr>, ro = False\<rparr>
      (FInt LITTLE 1 False) (PyInt (obyte (Offset_init Offset (FromInt 0) 0))) = Inr (VInt 7)"
    using u [of 7] by simp
  have p2: "map_of (f_values
        \<lparr>f_size = 1, f_signed = False, f_endianess = LITTLE,
          f_values = build_values
            [\<lparr>v_value = 1, v_name = ''A'', v_description = ''''\<rparr>,
             \<lparr>v_value = 2, v_name = ''B'', v_description = ''''\<rparr>]\<rparr>) 2
      = Some \<lparr>v_value = 2, v_name = ''B'', v_description = ''''\<rparr>"
    by (simp add: vals)
  have p7: "map_of (f_values
        \<lparr>f_size = 1, f_signed = False, f_endianess = LITTLE,
          f_values = build_values
            [\<lparr>v_value = 1, v_name = ''A'', v_description = ''''\<rparr>,
             \<lparr>v_value = 2, v_name = ''B'', v_description = ''''\<rparr>]\<rparr>) 7 = None
      \<and> (\<forall>p\<in>set (f_values
        \<lparr>f_size = 1, f_signed = False, f_endianess = LITTLE,
          f_values = build_values
            [\<lparr>v_value = 1, v_name = ''A'', v_description = ''''\<rparr>,
             \<lparr>v_value = 2, v_name = ''B'', v_description = ''''\<rparr>]\<rparr>).
          fst p AND 7 \<noteq> 0 \<longrightarrow> fst p AND 7 = fst p)"
    by (simp add: vals)
  have p3: "map_of (f_values
        \<lparr>f_size = 1, f_signed = False, f_endianess = LITTLE,
          f_values = build_values
            [\<lparr>v_value = 1, v_name = ''A'', v_description = ''''\<rparr>,
             \<lparr>v_value = 2, v_name = ''B'', v_description = ''''\<rparr>]\<rparr>) 3 = None
      \<and> (\<forall>p\<in>set (f_values
        \<lparr>f_size = 1, f_signed = False, f_endianess = LITTLE,
          f_values = build_values
            [\<lparr>v_value = 1, v_name = ''A'', v_description = ''''\<rparr>,
             \<lparr>v_value = 2, v_name = ''B'', v_description = ''''\<rparr>]\<rparr>).
          fst p AND 3 \<noteq> 0 \<longrightarrow> fst p AND 3 = fst p)
      \<and> filter (\<lambda>p. fst p \<noteq> 0 \<and> fst p AND 3 = fst p) (f_values
        \<lparr>f_size = 1, f_signed = False, f_endianess = LITTLE,
          f_values = build_values
            [\<lparr>v_value = 1, v_name = ''A'', v_description = ''''\<rparr>,
             \<lparr>v_value = 2, v_name = ''B'', v_description = ''''\<rparr>]\<rparr>)
        = [(1, \<lparr>v_value = 1, v_name = ''A'', v_description = ''''\<rparr>),
           (2, \<lparr>v_value = 2, v_name = ''B'', v_description = ''''\<rparr>)]
      \<and> (1::int) OR 2 = 3"
    by (simp add: vals)
  have r2: "BitMaskField_decode \<lparr>buf = \<lparr>content = [2], assignable = True\<rparr>, ro = False\<rparr>
        \<lparr>f_size = 1, f_signed = False, f_endianess = LITTLE,
          f_values = build_values
            [\<lparr>v_value = 1, v_name = ''A'', v_description = ''''\<rparr>,
             \<lparr>v_value = 2, v_name = ''B'', v_description = ''''\<rparr>]\<rparr>
        (Offset_init Offset (FromInt 0) 0)
      = Inr [Named \<lparr>v_value = 2, v_name = ''B'', v_description = ''''\<rparr>]"
    by (rule BitMaskField_decode_subsets [OF sig u2, THEN conjunct1, THEN mp, OF p2])
  have r3: "BitMaskField_decode \<lparr>buf = \<lparr>content = [3], assignable = True\<rparr>, ro = False\<rparr>
        \<lparr>f_size = 1, f_signed = False, f_endianess = LITTLE,
          f_values = build_values
            [\<lparr>v_value = 1, v_name = ''A'', v_description = ''''\<rparr>,
             \<lparr>v_value = 2, v_name = ''B'', v_description = ''''\<rparr>]\<rparr>
        (Offset_init Offset (FromInt 0) 0)
      = Inr [Named \<lparr>v_value = 1, v_name = ''A'', v_description = ''''\<rparr>,
             Named \<lparr>v_value = 2, v_name = ''B'', v_description = ''''\<rparr>]"
    by (rule BitMaskField_decode_subsets [OF sig u3, THEN conjunct2, THEN conjunct2, THEN mp,
          OF p3])
  have r7: "BitMaskField_decode \<lparr>buf = \<lparr>content = [7], assignable = True\<rparr>, ro = False\<rparr>
        \<lparr>f_size = 1, f_signed = False, f_endianess = LITTLE,
          f_values = build_values
            [\<lparr>v_value = 1, v_name = ''A'', v_description = ''''\<rparr>,
             \<lparr>v_value = 2, v_name = ''B'', v_description = ''''\<rparr>]\<rparr>
        (Offset_init Offset (FromInt 0) 0)
      = Inr [Named \<lparr>v_value = 1, v_name = ''A'', v_description = ''''\<rparr>,
             Named \<lparr>v_value = 2, v_name = ''B'', v_description = ''''\<rparr>,
             Unnamed 4]"
    using BitMaskField_decode_subsets [OF sig u7, THEN conjunct2, THEN conjunct1, THEN mp,
        OF p7]
    by (simp add: vals Let_def)
  from r2 r7 r3 show ?thesis
    by (intro conjI)
qed

section \<open>Encoding and reading an integer field\<close>

lemma BoundValue_value_values_get:
  assumes "f_values f = build_values vs"
  shows "BoundValue_value (Inr (values_get (f_values f) (VInt v))) = Inr (VInt v)"
proof (cases "map_of (build_values vs) v")
  case None
  then show ?thesis by (simp add: assms BoundValue_value_def values_get_def)
next
  case (Some it)
  then have "v_value it = v" by (rule build_values_key)
  with Some show ?thesis by (simp add: assms BoundValue_value_def values_get_def)
qed

text \<open>
  Claim C1. For an \<open>IntField\<close> of a valid size, any signedness and byte order and any
  table of values: whenever \<open>encode\<close> of an integer returns normally, the value read
  immediately afterwards through the field's bound value at the same offset is that
  integer; and \<open>encode\<close> does return normally for every integer in the range of the
  width and signedness, on a writable Data object, at an offset inside the buffer.
\<close>

theorem IntField_encode_then_read:
  assumes "IntField_init size0 sg e vs = Inr f"
  shows "(IntField_encode d f off (VInt v) = (None, d')
          \<longrightarrow> BoundValue_getitem_value
                \<lparr>ibv_data = d', ibv_field = AnIntField f, ibv_offset = off\<rparr> = Inr (VInt v))
     \<and> (in_range (nat size0) sg v \<and> \<not> ro d \<and> assignable (buf d) \<and> 0 \<le> obyte off
          \<and> obyte off + size0 \<le> int (length (content (buf d)))
          \<longrightarrow> fst (IntField_encode d f off (VInt v)) = None)"
proof -
  note i = IntField_init_sig [OF assms(1)]
  have sig: "IntField_sig f (BoundValue_size (f_size f)) = Inr (FInt e (nat size0) sg)"
    and k: "0 < nat size0" and vals: "f_values f = build_values vs" and pos: "0 < size0"
    using i by simp_all
  have one: "BoundValue_getitem_value
      \<lparr>ibv_data = d', ibv_field = AnIntField f, ibv_offset = off\<rparr> = Inr (VInt v)"
    if enc: "IntField_encode d f off (VInt v) = (None, d')"
  proof -
    from enc obtain b' where
      p: "struct_pack_into (FInt e (nat size0) sg) (buf d) (PyInt (obyte off)) (VInt v) = Inr b'"
      and d': "d' = d\<lparr>buf := b'\<rparr>"
      by (auto simp: IntField_encode_def sig pack_into_def split: if_splits sum.splits)
    have "unpack_from d' (FInt e (nat size0) sg) (PyInt (obyte off)) = Inr (VInt v)"
      using struct_roundtrip [OF p k] by (simp add: unpack_from_def d')
    then have dec: "IntField_decode d' f off = Inr (values_get (f_values f) (VInt v))"
      by (simp add: IntField_decode_def sig)
    show ?thesis
      by (simp add: BoundValue_getitem_value_def dec BoundValue_value_values_get [OF vals])
  qed
  have two: "fst (IntField_encode d f off (VInt v)) = None"
    if h: "in_range (nat size0) sg v \<and> \<not> ro d \<and> assignable (buf d) \<and> 0 \<le> obyte off
          \<and> obyte off + size0 \<le> int (length (content (buf d)))"
  proof -
    from h pos have "obyte off + int (nat size0) \<le> int (length (content (buf d)))"
      by simp
    with h obtain b' where
      "struct_pack_into (FInt e (nat size0) sg) (buf d) (PyInt (obyte off)) (VInt v) = Inr b'"
      using struct_pack_into_ok [of "buf d" "nat size0" sg v "obyte off" e] by blast
    with h show ?thesis
      by (simp add: IntField_encode_def sig pack_into_def)
  qed
  from one two show ?thesis by blast
qed

theorem IntField_encode_then_read_witness:
  "IntField_init 1 False LITTLE [\<lparr>v_value = 5, v_name = ''FIVE'', v_description = ''''\<rparr>]
      = Inr \<lparr>f_size = 1, f_signed = False, f_endianess = LITTLE,
          f_values = build_values [\<lparr>v_value = 5, v_name = ''FIVE'', v_description = ''''\<rparr>]\<rparr>
   \<and> IntField_encode \<lparr>buf = \<lparr>content = [0], assignable = True\<rparr>, ro = False\<rparr>
        \<lparr>f_size = 1, f_signed = False, f_endianess = LITTLE,
          f_values = build_values [\<lparr>v_value = 5, v_name = ''FIVE'', v_description = ''''\<rparr>]\<rparr>
        (Offset_init Offset (FromInt 0) 0) (VInt 5)
      = (None, \<lparr>buf = \<lparr>content = [5], assignable = True\<rparr>, ro = False\<rparr>)
   \<and> BoundValue_getitem_value
        \<lparr>ibv_data = \<lparr>buf = \<lparr>content = [5], assignable = True\<rparr>, ro = False\<rparr>,
          ibv_field = AnIntField
            \<lparr>f_size = 1, f_signed = False, f_endianess = LITTLE,
          f_values = build_values [\<lparr>v_value = 5, v_name = ''FIVE'', v_description = ''''\<rparr>]\<rparr>,
          ibv_offset = (Offset_init Offset (FromInt 0) 0)\<rparr> = Inr (VInt 5)
   \<and> in_range (nat 1) False 5
   \<and> \<not> ro \<lparr>buf = \<lparr>content = [0], assignable = True\<rparr>, ro = False\<rparr>
   \<and> assignable (buf \<lparr>buf = \<lparr>content = [0], assignable = True\<rparr>, ro = False\<rparr>)
   \<and> 0 \<le> obyte (Offset_init Offset (FromInt 0) 0)
   \<and> obyte (Offset_init Offset (FromInt 0) 0) + 1
        \<le> int (length (content (buf \<lparr>buf = \<lparr>content = [0], assignable = True\<rparr>, ro = False\<rparr>)))"
proof -
  have h1: "IntField_init 1 False LITTLE [\<lparr>v_value = 5, v_name = ''FIVE'', v_description = ''''\<rparr>]
      = Inr \<lparr>f_size = 1, f_signed = False, f_endianess = LITTLE,
          f_values = build_values [\<lparr>v_value = 5, v_name = ''FIVE'', v_description = ''''\<rparr>]\<rparr>"
    by (simp add: IntField_init_def Size_values_def)
  have enc: "IntField_encode \<lparr>buf = \<lparr>content = [0], assignable = True\<rparr>, ro = False\<rparr>
        \<lparr>f_size = 1, f_signed = False, f_endianess = LITTLE,
          f_values = build_values [\<lparr>v_value = 5, v_name = ''FIVE'', v_description = ''''\<rparr>]\<rparr>
        (Offset_init Offset (FromInt 0) 0) (VInt 5)
      = (None, \<lparr>buf = \<lparr>content = [5], assignable = True\<rparr>, ro = False\<rparr>)"
    by (simp add: IntField_encode_def IntField_sig_def BoundValue_size_def Offset_init_def
        log2_def code_size_def pack_into_def struct_pack_into_def calcsize_def locate_def
        pack_value_def in_range_def int_to_bytes_def)
  have rd: "BoundValue_getitem_value
        \<lparr>ibv_data = \<lparr>buf = \<lparr>content = [5], assignable = True\<rparr>, ro = False\<rparr>,
          ibv_field = AnIntField
            \<lparr>f_size = 1, f_signed = False, f_endianess = LITTLE,
          f_values = build_values [\<lparr>v_value = 5, v_name = ''FIVE'', v_description = ''''\<rparr>]\<rparr>,
          ibv_offset = (Offset_init Offset (FromInt 0) 0)\<rparr> = Inr (VInt 5)"
    using IntField_encode_then_read [OF h1, where d = "\<lparr>buf = \<lparr>content = [0], assignable = True\<rparr>, ro = False\<rparr>"
        and v = 5 and d' = "\<lparr>buf = \<lparr>content = [5], assignable = True\<rparr>, ro = False\<rparr>"
        and off = "(Offset_init Offset (FromInt 0) 0)"] enc
    by blast
  have rest: "in_range (nat 1) False 5
   \<and> \<not> ro \<lparr>buf = \<lparr>content = [0], assignable = True\<rparr>, ro = False\<rparr>
   \<and> assignable (buf \<lparr>buf = \<lparr>content = [0], assignable = True\<rparr>, ro = False\<rparr>)
   \<and> 0 \<le> obyte (Offset_init Offset (FromInt 0) 0)
   \<and> obyte (Offset_init Offset (FromInt 0) 0) + 1
        \<le> int (length (content (buf \<lparr>buf = \<lparr>content = [0], assignable = True\<rparr>, ro = False\<rparr>)))"
    by (simp add: in_range_def Offset_init_def)
  from h1 enc rd rest show ?thesis
    by (intro conjI) simp_all
qed

section \<open>Comparing bound values\<close>

lemma BoundValue_getitem_value_int:
  assumes "BoundValue_getitem_value bv = Inr v"
  shows "\<exists>x. v = VInt x"
proof (cases "ibv_field bv")
  case (AnIntField f)
  with assms obtain r where
    d: "IntField_decode (ibv_data bv) f (ibv_offset bv) = Inr r" and v: "BoundValue_value (Inr r) = Inr v"
    by (cases "IntField_decode (ibv_data bv) f (ibv_offset bv)")
      (simp_all add: BoundValue_getitem_value_def BoundValue_value_def)
  from d obtain sig res where
    s: "IntField_sig f (BoundValue_size (f_size f)) = Inr sig"
    and u: "unpack_from (ibv_data bv) sig (PyInt (obyte (ibv_offset bv))) = Inr res"
    and r: "r = values_get (f_values f) res"
    by (auto simp: IntField_decode_def split: sum.splits)
  from s obtain e n sg where sig: "sig = FInt e n sg"
    by (auto simp: IntField_sig_def split: sum.splits)
  from u obtain k where res: "res = VInt k"
    by (auto simp: sig unpack_from_def struct_unpack_from_def calcsize_def split: sum.splits)
  show ?thesis
    using v by (auto simp: r res values_get_def BoundValue_value_def split: option.splits)
next
  case (ABitField w)
  with assms show ?thesis
    by (auto simp: BoundValue_getitem_value_def BoundValue_value_def split: sum.splits)
qed

text \<open>
  Claim C9. For two bound values of integer-typed fields whose values decode, the
  decoded values are integers \<open>x\<close> and \<open>y\<close>, and the comparison operators return what
  the comparison of \<open>x\<close> with \<open>y\<close> gives: \<open>==\<close> is \<open>x = y\<close>, \<open><\<close> is \<open>x < y\<close>, and the
  derived \<open><=\<close>, \<open>>\<close> and \<open>>=\<close> are \<open>x \<le> y\<close>, \<open>y < x\<close> and \<open>y \<le> x\<close>: the total order of
  the decoded values.
\<close>

theorem BoundValue_total_order:
  assumes "BoundValue_getitem_value a = Inr va" and "BoundValue_getitem_value b = Inr vb"
  shows "\<exists>x y. va = VInt x \<and> vb = VInt y
     \<and> BoundValue_eq a (CmpBoundValue b) = Inr (x = y)
     \<and> BoundValue_lt a (CmpBoundValue b) = Inr (x < y)
     \<and> BoundValue_le a (CmpBoundValue b) = Inr (x \<le> y)
     \<and> BoundValue_gt a (CmpBoundValue b) = Inr (y < x)
     \<and> BoundValue_ge a (CmpBoundValue b) = Inr (y \<le> x)"
proof -
  from assms(1) obtain x where x: "va = VInt x"
    using BoundValue_getitem_value_int by blast
  from assms(2) obtain y where y: "vb = VInt y"
    using BoundValue_getitem_value_int by blast
  have eq: "BoundValue_eq a (CmpBoundValue b) = Inr (x = y)"
    using assms by (simp add: BoundValue_eq_def x y)
  have lt: "BoundValue_lt a (CmpBoundValue b) = Inr (x < y)"
    using assms by (simp add: BoundValue_lt_def NamedDict_getattr_value_def py_lt_def x y)
  have le: "BoundValue_le a (CmpBoundValue b) = Inr (x \<le> y)"
    by (auto simp: BoundValue_le_def lt eq)
  have gt: "BoundValue_gt a (CmpBoundValue b) = Inr (y < x)"
    by (auto simp: BoundValue_gt_def lt eq)
  have ge: "BoundValue_ge a (CmpBoundValue b) = Inr (y \<le> x)"
    by (auto simp: BoundValue_ge_def lt)
  from x y eq lt le gt ge show ?thesis by blast
qed

text \<open>When the value of the left operand does not decode, every comparison raises.\<close>

lemma BoundValue_compare_raises:
  assumes "BoundValue_getitem_value a = Inl e"
  shows "BoundValue_eq a other = Inl e \<and> BoundValue_lt a other = Inl e
    \<and> BoundValue_le a other = Inl e \<and> BoundValue_gt a other = Inl e
    \<and> BoundValue_ge a other = Inl e"
  using assms
  by (simp add: BoundValue_eq_def BoundValue_lt_def BoundValue_le_def BoundValue_gt_def
      BoundValue_ge_def NamedDict_getattr_value_def)

theorem BoundValue_total_order_witness:
  "BoundValue_getitem_value
      \<lparr>ibv_data = \<lparr>buf = \<lparr>content = [3, 7], assignable = True\<rparr>, ro = False\<rparr>,
       ibv_field = AnIntField
        \<lparr>f_size = 1, f_signed = False, f_endianess = LITTLE,
         f_values = build_values [\<lparr>v_value = 3, v_name = ''THREE'', v_description = ''''\<rparr>]\<rparr>,
       ibv_offset = Offset_init Offset (FromInt 0) 0\<rparr> = Inr (VInt 3)
   \<and> BoundValue_getitem_value
      \<lparr>ibv_data = \<lparr>buf = \<lparr>content = [3, 7], assignable = True\<rparr>, ro = False\<rparr>,
       ibv_field = ABitField 8,
       ibv_offset = Offset_init Offset (FromInt 1) 0\<rparr> = Inr (VInt 7)
   \<and> BoundValue_eq
      \<lparr>ibv_data = \<lparr>buf = \<lparr>content = [3, 7], assignable = True\<rparr>, ro = False\<rparr>,
       ibv_field = AnIntField
        \<lparr>f_size = 1, f_signed = False, f_endianess = LITTLE,
         f_values = build_values [\<lparr>v_value = 3, v_name = ''THREE'', v_description = ''''\<rparr>]\<rparr>,
       ibv_offset = Offset_init Offset (FromInt 0) 0\<rparr>
      (CmpBoundValue
      \<lparr>ibv_data = \<lparr>buf = \<lparr>content = [3, 7], assignable = True\<rparr>, ro = False\<rparr>,
       ibv_field = ABitField 8,
       ibv_offset = Offset_init Offset (FromInt 1) 0\<rparr>) = Inr False
   \<and> BoundValue_lt
      \<lparr>ibv_data = \<lparr>buf = \<lparr>content = [3, 7], assignable = True\<rparr>, ro = False\<rparr>,
       ibv_field = AnIntField
        \<lparr>f_size = 1, f_signed = False, f_endianess = LITTLE,
         f_values = build_values [\<lparr>v_value = 3, v_name = ''THREE'', v_description = ''''\<rparr>]\<rparr>,
       ibv_offset = Offset_init Offset (FromInt 0) 0\<rparr>
      (CmpBoundValue
      \<lparr>ibv_data = \<lparr>buf = \<lparr>content = [3, 7], assignable = True\<rparr>, ro = False\<rparr>,
       ibv_field = ABitField 8,
       ibv_offset = Offset_init Offset (FromInt 1) 0\<rparr>) = Inr True
   \<and> BoundValue_le
      \<lparr>ibv_data = \<lparr>buf = \<lparr>content = [3, 7], assignable = True\<rparr>, ro = False\<rparr>,
       ibv_field = AnIntField
        \<lparr>f_size = 1, f_signed = False, f_endianess = LITTLE,
         f_values = build_values [\<lparr>v_value = 3, v_name = ''THREE'', v_description = ''''\<rparr>]\<rparr>,
       ibv_offset = Offset_init Offset (FromInt 0) 0\<rparr>
      (CmpBoundValue
      \<lparr>ibv_data = \<lparr>buf = \<lparr>content = [3, 7], assignable = True\<rparr>, ro = False\<rparr>,
       ibv_field = ABitField 8,
       ibv_offset = Offset_init Offset (FromInt 1) 0\<rparr>) = Inr True
   \<and> BoundValue_gt
      \<lparr>ibv_data = \<lparr>buf = \<lparr>content = [3, 7], assignable = True\<rparr>, ro = False\<rparr>,
       ibv_field = AnIntField
        \<lparr>f_size = 1, f_signed = False, f_endianess = LITTLE,
         f_values = build_values [\<lparr>v_value = 3, v_name = ''THREE'', v_description = ''''\<rparr>]\<rparr>,
       ibv_offset = Offset_init Offset (FromInt 0) 0\<rparr>
      (CmpBoundValue
      \<lparr>ibv_data = \<lparr>buf = \<lparr>content = [3, 7], assignable = True\<rparr>, ro = False\<rparr>,
       ibv_field = ABitField 8,
       ibv_offset = Offset_init Offset (FromInt 1) 0\<rparr>) = Inr False
   \<and> BoundValue_ge
      \<lparr>ibv_data = \<lparr>buf = \<lparr>content = [3, 7], assignable = True\<rparr>, ro = False\<rparr>,
       ibv_field = AnIntField
        \<lparr>f_size = 1, f_signed = False, f_endianess = LITTLE,
         f_values = build_values [\<lparr>v_value = 3, v_name = ''THREE'', v_description = ''''\<rparr>]\<rparr>,
       ibv_offset = Offset_init Offset (FromInt 0) 0\<rparr>
      (CmpBoundValue
      \<lparr>ibv_data = \<lparr>buf = \<lparr>content = [3, 7], assignable = True\<rparr>, ro = False\<rparr>,
       ibv_field = ABitField 8,
       ibv_offset = Offset_init Offset (FromInt 1) 0\<rparr>) = Inr False"
proof -
  have h1: "BoundValue_getitem_value
      \<lparr>ibv_data = \<lparr>buf = \<lparr>content = [3, 7], assignable = True\<rparr>, ro = False\<rparr>,
       ibv_field = AnIntField
        \<lparr>f_size = 1, f_signed = False, f_endianess = LITTLE,
         f_values = build_values [\<lparr>v_value = 3, v_name = ''THREE'', v_description = ''''\<rparr>]\<rparr>,
       ibv_offset = Offset_init Offset (FromInt 0) 0\<rparr> = Inr (VInt 3)"
    by (simp add: BoundValue_getitem_value_def IntField_decode_def IntField_sig_def
        BoundValue_size_def Offset_init_def log2_def code_size_def unpack_from_def
        struct_unpack_from_def calcsize_def locate_def bytes_to_int_def values_get_def
        build_values_def BoundValue_value_def)
  have h2: "BoundValue_getitem_value
      \<lparr>ibv_data = \<lparr>buf = \<lparr>content = [3, 7], assignable = True\<rparr>, ro = False\<rparr>,
       ibv_field = ABitField 8,
       ibv_offset = Offset_init Offset (FromInt 1) 0\<rparr> = Inr (VInt 7)"
    by (simp add: BoundValue_getitem_value_def BitFieldBoundValue_size_def enclosing_def
        Size_bit_def Offset_init_def offset_add_def rounded_def Size_values_def
        BitField_decode_def BitField_sig_def log2_def code_size_def unpack_from_def
        struct_unpack_from_def calcsize_def locate_def bytes_to_int_def BitField_mask_def
        py_lshift_def py_rshift_def BoundValue_value_def Let_def)
  from BoundValue_total_order [OF h1 h2] h1 h2 show ?thesis
    by auto
qed

section \<open>The probe of the Data constructor\<close>

lemma probe_unchanged:
  assumes "probe b = Inr b'"
  shows "b' = b"
proof (cases "content b")
  case Nil
  with assms show ?thesis by (simp add: probe_def)
next
  case (Cons x xs)
  then have u: "b\<lparr>content := x # xs\<rparr> = b"
    by (cases b) simp
  from assms Cons show ?thesis
    by (simp add: probe_def u split: if_splits)
qed

lemma probe_ok_iff: "(\<exists>b'. probe b = Inr b') \<longleftrightarrow> assignable b \<and> content b \<noteq> []"
  by (cases "content b") (simp_all add: probe_def)

text \<open>
  Claim C10. The constructor decides writability by the probe write of the first byte
  to itself: the Data object is read-only exactly when the caller asked for it, or the
  buffer does not support item assignment, or the buffer is empty; the probe leaves the
  buffer as it was. Over a buffer without item assignment every later \<open>pack_into\<close>
  raises without writing, whatever \<open>ro\<close> the caller passed; over a non-empty buffer
  with item assignment and \<open>ro=False\<close>, \<open>pack_into\<close> does what \<open>struct.pack_into\<close>
  does.
\<close>

theorem Data_init_probe:
  "ro (Data_init b r) = (r \<or> \<not> assignable b \<or> content b = [])
   \<and> buf (Data_init b r) = b
   \<and> (\<not> assignable b
        \<longrightarrow> pack_into (Data_init b r) f a v = (Some (PyException ''fu''), Data_init b r))
   \<and> (assignable b \<and> content b \<noteq> [] \<and> \<not> r
        \<longrightarrow> pack_into (Data_init b r) f a v =
            (case struct_pack_into f b a v of
               Inl e \<Rightarrow> (Some e, Data_init b r)
             | Inr b' \<Rightarrow> (None, \<lparr>buf = b', ro = False\<rparr>)))"
proof (cases "probe b")
  case (Inl e)
  then have n: "\<not> (assignable b \<and> content b \<noteq> [])"
    using probe_ok_iff [of b] by auto
  from Inl have d: "Data_init b r = \<lparr>buf = b, ro = True\<rparr>"
    by (simp add: Data_init_def)
  from n show ?thesis
    unfolding d by (auto simp: pack_into_def)
next
  case (Inr b')
  then have b': "b' = b" by (rule probe_unchanged)
  from Inr have y: "assignable b \<and> content b \<noteq> []"
    using probe_ok_iff [of b] by blast
  from Inr have d: "Data_init b r = \<lparr>buf = b, ro = r\<rparr>"
    by (simp add: Data_init_def b')
  from y show ?thesis
    unfolding d by (auto simp: pack_into_def split: sum.splits)
qed

theorem Data_init_probe_witness:
  "ro (Data_init \<lparr>content = [1, 2], assignable = False\<rparr> False)
   \<and> pack_into (Data_init \<lparr>content = [1, 2], assignable = False\<rparr> False)
        (FInt LITTLE 1 False) (PyInt 0) (VInt 7)
      = (Some (PyException ''fu''), Data_init \<lparr>content = [1, 2], assignable = False\<rparr> False)
   \<and> \<not> ro (Data_init \<lparr>content = [1, 2], assignable = True\<rparr> False)
   \<and> pack_into (Data_init \<lparr>content = [1, 2], assignable = True\<rparr> False)
        (FInt LITTLE 1 False) (PyInt 0) (VInt 7)
      = (None, \<lparr>buf = \<lparr>content = [7, 2], assignable = True\<rparr>, ro = False\<rparr>)
   \<and> ro (Data_init \<lparr>content = [], assignable = True\<rparr> False)
   \<and> ro (Data_init \<lparr>content = [1, 2], assignable = True\<rparr> True)"
proof -
  have s: "struct_pack_into (FInt LITTLE 1 False) \<lparr>content = [1, 2], assignable = True\<rparr>
      (PyInt 0) (VInt 7) = Inr \<lparr>content = [7, 2], assignable = True\<rparr>"
    by (simp add: struct_pack_into_def calcsize_def locate_def pack_value_def in_range_def
        int_to_bytes_def)
  note n = Data_init_probe [of "\<lparr>content = [1, 2], assignable = False\<rparr>" False
      "FInt LITTLE 1 False" "PyInt 0" "VInt 7"]
  note y = Data_init_probe [of "\<lparr>content = [1, 2], assignable = True\<rparr>" False
      "FInt LITTLE 1 False" "PyInt 0" "VInt 7"]
  note e = Data_init_probe [of "\<lparr>content = [], assignable = True\<rparr>" False]
  note t = Data_init_probe [of "\<lparr>content = [1, 2], assignable = True\<rparr>" True]
  from n have n1: "ro (Data_init \<lparr>content = [1, 2], assignable = False\<rparr> False)"
    by simp
  from n have n2: "pack_into (Data_init \<lparr>content = [1, 2], assignable = False\<rparr> False)
        (FInt LITTLE 1 False) (PyInt 0) (VInt 7)
      = (Some (PyException ''fu''), Data_init \<lparr>content = [1, 2], assignable = False\<rparr> False)"
    by simp
  from y have y1: "\<not> ro (Data_init \<lparr>content = [1, 2], assignable = True\<rparr> False)"
    by simp
  from y have "pack_into (Data_init \<lparr>content = [1, 2], assignable = True\<rparr> False)
        (FInt LITTLE 1 False) (PyInt 0) (VInt 7)
      = (case struct_pack_into (FInt LITTLE 1 False) \<lparr>content = [1, 2], assignable = True\<rparr>
              (PyInt 0) (VInt 7) of
           Inl e \<Rightarrow> (Some e, Data_init \<lparr>content = [1, 2], assignable = True\<rparr> False)
         | Inr b' \<Rightarrow> (None, \<lparr>buf = b', ro = False\<rparr>))"
    by simp
  then have y2: "pack_into (Data_init \<lparr>content = [1, 2], assignable = True\<rparr> False)
        (FInt LITTLE 1 False) (PyInt 0) (VInt 7)
      = (None, \<lparr>buf = \<lparr>content = [7, 2], assignable = True\<rparr>, ro = False\<rparr>)"
    unfolding s by simp
  from e have e1: "ro (Data_init \<lparr>content = [], assignable = True\<rparr> False)"
    by simp
  from t have t1: "ro (Data_init \<lparr>content = [1, 2], assignable = True\<rparr> True)"
    by simp
  from n1 n2 y1 y2 e1 t1 show ?thesis
    by (intro conjI)
qed

end
